theory Spec2Isabelle
  imports Complex_Main
begin

section \<open>JavaScript numbers\<close>

text \<open>
  A JavaScript number is modelled as an exact real, extended by the three special values
  of the language. Finite arithmetic is exact: the rounding and the overflow of IEEE
  doubles, and the sign of zero, are outside the model. Every operator below follows the
  language's rule for \<open>NaN\<close> and the infinities.
\<close>

datatype number = Fin real | PosInf | NegInf | NaN

fun js_lt :: "number \<Rightarrow> number \<Rightarrow> bool" where
  "js_lt (Fin x) (Fin y) = (x < y)"
| "js_lt (Fin x) PosInf = True"
| "js_lt NegInf (Fin y) = True"
| "js_lt NegInf PosInf = True"
| "js_lt _ _ = False"

definition js_gt :: "number \<Rightarrow> number \<Rightarrow> bool" where
  "js_gt a b = js_lt b a"

fun sign_of :: "number \<Rightarrow> real" where
  "sign_of (Fin x) = sgn x"
| "sign_of PosInf = 1"
| "sign_of NegInf = - 1"
| "sign_of NaN = 0"

definition inf_of_sign :: "real \<Rightarrow> number" where
  "inf_of_sign s = (if 0 < s then PosInf else if s < 0 then NegInf else NaN)"

fun js_neg :: "number \<Rightarrow> number" where
  "js_neg (Fin x) = Fin (- x)"
| "js_neg PosInf = NegInf"
| "js_neg NegInf = PosInf"
| "js_neg NaN = NaN"

fun js_add :: "number \<Rightarrow> number \<Rightarrow> number" where
  "js_add (Fin x) (Fin y) = Fin (x + y)"
| "js_add NaN _ = NaN"
| "js_add _ NaN = NaN"
| "js_add PosInf NegInf = NaN"
| "js_add NegInf PosInf = NaN"
| "js_add PosInf _ = PosInf"
| "js_add _ PosInf = PosInf"
| "js_add NegInf _ = NegInf"
| "js_add _ NegInf = NegInf"

definition js_sub :: "number \<Rightarrow> number \<Rightarrow> number" where
  "js_sub a b = js_add a (js_neg b)"

fun js_mul :: "number \<Rightarrow> number \<Rightarrow> number" where
  "js_mul (Fin x) (Fin y) = Fin (x * y)"
| "js_mul NaN _ = NaN"
| "js_mul _ NaN = NaN"
| "js_mul a b = inf_of_sign (sign_of a * sign_of b)"

fun js_div :: "number \<Rightarrow> number \<Rightarrow> number" where
  "js_div NaN _ = NaN"
| "js_div _ NaN = NaN"
| "js_div (Fin x) (Fin y) = (if y = 0 then inf_of_sign (sgn x) else Fin (x / y))"
| "js_div (Fin x) _ = Fin 0"
| "js_div a (Fin y) = inf_of_sign (sign_of a * (if y < 0 then - 1 else 1))"
| "js_div _ _ = NaN"

text \<open>\<open>Math.max\<close> and \<open>Math.min\<close> of two arguments: \<open>NaN\<close> as soon as one is.\<close>

fun js_max :: "number \<Rightarrow> number \<Rightarrow> number" where
  "js_max NaN _ = NaN"
| "js_max _ NaN = NaN"
| "js_max a b = (if js_lt a b then b else a)"

fun js_min :: "number \<Rightarrow> number \<Rightarrow> number" where
  "js_min NaN _ = NaN"
| "js_min _ NaN = NaN"
| "js_min a b = (if js_lt b a then b else a)"

definition is_integer :: "real \<Rightarrow> bool" where
  "is_integer x = (x = of_int \<lfloor>x\<rfloor>)"

text \<open>
  \<open>Math.pow\<close>: an exponent that is \<open>NaN\<close> gives \<open>NaN\<close>, an exponent zero gives 1 on
  every base, then a base \<open>NaN\<close> gives \<open>NaN\<close>; a negative base with a fractional exponent
  gives \<open>NaN\<close>.
\<close>

fun js_pow :: "number \<Rightarrow> number \<Rightarrow> number" where
  "js_pow b NaN = NaN"
| "js_pow b (Fin e) =
     (if e = 0 then Fin 1
      else case b of
        NaN \<Rightarrow> NaN
      | PosInf \<Rightarrow> (if 0 < e then PosInf else Fin 0)
      | NegInf \<Rightarrow>
          (if 0 < e then (if is_integer e \<and> odd \<lfloor>e\<rfloor> then NegInf else PosInf) else Fin 0)
      | Fin x \<Rightarrow>
          (if x = 0 then (if 0 < e then Fin 0 else PosInf)
           else if is_integer e then Fin (x powi \<lfloor>e\<rfloor>)
           else if 0 < x then Fin (x powr e)
           else NaN))"
| "js_pow NaN _ = NaN"
| "js_pow (Fin x) PosInf = (if 1 < \<bar>x\<bar> then PosInf else if \<bar>x\<bar> = 1 then NaN else Fin 0)"
| "js_pow (Fin x) NegInf = (if 1 < \<bar>x\<bar> then Fin 0 else if \<bar>x\<bar> = 1 then NaN else PosInf)"
| "js_pow _ PosInf = PosInf"
| "js_pow _ NegInf = Fin 0"

section \<open>JavaScript values of a request body\<close>

text \<open>
  The fields of a JSON body, and the value of a form field: a field that is absent reads
  as \<open>undefined\<close>. Arrays and objects as field values are not modelled.
\<close>

datatype jsval = JUndefined | JNull | JBool bool | JNum number | JStr string

fun truthy :: "jsval \<Rightarrow> bool" where
  "truthy JUndefined = False"
| "truthy JNull = False"
| "truthy (JBool b) = b"
| "truthy (JNum n) = (n \<noteq> NaN \<and> n \<noteq> Fin 0)"
| "truthy (JStr s) = (s \<noteq> [])"

text \<open>Strict equality \<open>===\<close>: by type and value, and \<open>NaN\<close> equals nothing.\<close>

definition strict_eq :: "jsval \<Rightarrow> jsval \<Rightarrow> bool" where
  "strict_eq a b = (a = b \<and> a \<noteq> JNum NaN)"

subsection \<open>Numeric literals in strings\<close>

definition digit_value :: "char \<Rightarrow> nat option" where
  "digit_value c =
     (let k = (of_char c :: nat) in
      if 48 \<le> k \<and> k \<le> 57 then Some (k - 48)
      else if 97 \<le> k \<and> k \<le> 122 then Some (k - 87)
      else if 65 \<le> k \<and> k \<le> 90 then Some (k - 55)
      else None)"

fun span_digits :: "nat \<Rightarrow> string \<Rightarrow> nat list \<times> string" where
  "span_digits r [] = ([], [])"
| "span_digits r (c # cs) =
     (case digit_value c of
        None \<Rightarrow> ([], c # cs)
      | Some d \<Rightarrow>
          if d < r then (case span_digits r cs of (ds, rest) \<Rightarrow> (d # ds, rest))
          else ([], c # cs))"

definition digits_value :: "nat \<Rightarrow> nat list \<Rightarrow> nat" where
  "digits_value r ds = foldl (\<lambda>a d. r * a + d) 0 ds"

definition is_space :: "char \<Rightarrow> bool" where
  "is_space c = ((of_char c :: nat) \<in> {9, 10, 11, 12, 13, 32})"

definition trim_left :: "string \<Rightarrow> string" where
  "trim_left s = dropWhile is_space s"

definition trim :: "string \<Rightarrow> string" where
  "trim s = rev (trim_left (rev (trim_left s)))"

definition starts_with :: "string \<Rightarrow> string \<Rightarrow> bool" where
  "starts_with p s = (take (length p) s = p)"

fun take_sign :: "string \<Rightarrow> int \<times> string" where
  "take_sign [] = (1, [])"
| "take_sign (c # cs) =
     (if c = CHR ''-'' then (- 1, cs) else if c = CHR ''+'' then (1, cs) else (1, c # cs))"

text \<open>The exponent part of a decimal literal; it counts only when digits follow.\<close>

fun parse_exponent :: "string \<Rightarrow> int \<times> string" where
  "parse_exponent [] = (0, [])"
| "parse_exponent (c # cs) =
     (if c = CHR ''e'' \<or> c = CHR ''E'' then
        (case take_sign cs of (sg, t) \<Rightarrow>
           (case span_digits 10 t of (ds, rest) \<Rightarrow>
              if ds = [] then (0, c # cs) else (sg * int (digits_value 10 ds), rest)))
      else (0, c # cs))"

text \<open>
  The longest prefix that is a signed decimal literal (\<open>StrDecimalLiteral\<close>), with what
  follows it; \<open>NaN\<close> when no prefix is one.
\<close>

definition parse_decimal :: "string \<Rightarrow> number \<times> string" where
  "parse_decimal s =
     (case take_sign s of (sg, t) \<Rightarrow>
        if starts_with ''Infinity'' t then ((if sg < 0 then NegInf else PosInf), drop 8 t)
        else
          (case span_digits 10 t of (ip, r1) \<Rightarrow>
             (case (case r1 of
                      [] \<Rightarrow> ([], r1)
                    | c # cs \<Rightarrow> if c = CHR ''.'' then span_digits 10 cs else ([], r1)) of
                (fp, r2) \<Rightarrow>
                  if ip = [] \<and> fp = [] then (NaN, s)
                  else
                    (case parse_exponent r2 of (ex, r3) \<Rightarrow>
                       (Fin (of_int sg
                             * (of_nat (digits_value 10 ip)
                                + of_nat (digits_value 10 fp) / 10 ^ length fp)
                             * 10 powi ex), r3)))))"

definition parseFloat_str :: "string \<Rightarrow> number" where
  "parseFloat_str s = fst (parse_decimal (trim_left s))"

definition radix_prefix :: "string \<Rightarrow> nat option" where
  "radix_prefix t =
     (if starts_with ''0x'' t \<or> starts_with ''0X'' t then Some 16
      else if starts_with ''0o'' t \<or> starts_with ''0O'' t then Some 8
      else if starts_with ''0b'' t \<or> starts_with ''0B'' t then Some 2
      else None)"

text \<open>\<open>Number(s)\<close> on a string: the whole trimmed string must be a literal.\<close>

definition toNumber_str :: "string \<Rightarrow> number" where
  "toNumber_str s =
     (let t = trim s in
      if t = [] then Fin 0
      else case radix_prefix t of
        Some r \<Rightarrow>
          (case span_digits r (drop 2 t) of (ds, rest) \<Rightarrow>
             if ds = [] \<or> rest \<noteq> [] then NaN else Fin (of_nat (digits_value r ds)))
      | None \<Rightarrow>
          (case parse_decimal t of (v, rest) \<Rightarrow> if rest = [] then v else NaN))"

definition parseInt_str :: "string \<Rightarrow> number" where
  "parseInt_str s =
     (case take_sign (trim_left s) of (sg, t) \<Rightarrow>
        (case (if starts_with ''0x'' t \<or> starts_with ''0X'' t then (16, drop 2 t) else (10, t)) of
           (r, u) \<Rightarrow>
             (case span_digits r u of (ds, rest) \<Rightarrow>
                if ds = [] then NaN else Fin (of_int (sg * int (digits_value r ds))))))"

subsection \<open>Conversions\<close>

fun toNumber :: "jsval \<Rightarrow> number" where
  "toNumber JUndefined = NaN"
| "toNumber JNull = Fin 0"
| "toNumber (JBool b) = Fin (if b then 1 else 0)"
| "toNumber (JNum n) = n"
| "toNumber (JStr s) = toNumber_str s"

text \<open>
  \<open>parseFloat\<close> and \<open>parseInt\<close> print their argument and parse the text. A number prints
  so that \<open>parseFloat\<close> reads it back; \<open>parseInt\<close> reads the digits before the point,
  which is the truncation of a number printed in plain notation (from \<open>1e-6\<close> up to
  \<open>1e21\<close>) and the leading digit of one printed with an exponent.
\<close>

fun parseFloat :: "jsval \<Rightarrow> number" where
  "parseFloat (JStr s) = parseFloat_str s"
| "parseFloat (JNum n) = n"
| "parseFloat _ = NaN"

definition trunc :: "real \<Rightarrow> int" where
  "trunc x = (if 0 \<le> x then \<lfloor>x\<rfloor> else \<lceil>x\<rceil>)"

text \<open>The first significant decimal digit of a positive number.\<close>

function first_digit :: "real \<Rightarrow> int" where
  "first_digit x =
     (if x \<le> 0 then 0
      else if x < 1 then first_digit (10 * x)
      else if 10 \<le> x then first_digit (x / 10)
      else \<lfloor>x\<rfloor>)"
  by pat_completeness auto
termination
proof (relation "measure (\<lambda>x. if x < 1 then nat \<lceil>- log 10 x\<rceil> else nat \<lfloor>log 10 x\<rfloor>)",
    goal_cases)
  case 1
  then show ?case by simp
next
  case (2 x)
  then have x: "0 < x" "x < 1" by auto
  have l: "log 10 (10 * x) = 1 + log 10 x" using x by (simp add: log_mult)
  have neg: "log 10 x < 0" using x by simp
  then have pos: "0 < nat \<lceil>- log 10 x\<rceil>" by linarith
  show ?case
  proof (cases "10 * x < 1")
    case True
    then have "log 10 (10 * x) < 0" using x by simp
    then have "log 10 x < - 1" using l by simp
    then have "nat \<lceil>- (1 + log 10 x)\<rceil> < nat \<lceil>- log 10 x\<rceil>" by linarith
    then show ?thesis using True x l by simp
  next
    case False
    then show ?thesis using x pos by simp
  qed
next
  case (3 x)
  then have x: "10 \<le> x" by auto
  have l: "log 10 (x / 10) = log 10 x - 1" using x by (simp add: log_divide)
  have "1 \<le> log 10 x" using x log_le_cancel_iff [of 10 10 x] by simp
  then have "nat \<lfloor>log 10 x - 1\<rfloor> < nat \<lfloor>log 10 x\<rfloor>" by linarith
  then show ?case using x l by simp
qed

declare first_digit.simps [simp del]

fun parseInt :: "jsval \<Rightarrow> number" where
  "parseInt (JStr s) = parseInt_str s"
| "parseInt (JNum (Fin x)) =
     (if x = 0 then Fin 0
      else if 1 / 10 ^ 6 \<le> \<bar>x\<bar> \<and> \<bar>x\<bar> < 10 ^ 21 then Fin (of_int (trunc x))
      else Fin (sgn x * of_int (first_digit \<bar>x\<bar>)))"
| "parseInt _ = NaN"

section \<open>The APY curve\<close>

text \<open>
  \<open>apyFromTerm\<close> of the servers clamps with \<open>Math.min(Math.max(months, 3), 24)\<close>; the
  scripts of the pages call their helper \<open>clamp\<close>, which is the same expression.
\<close>

definition minMonths :: number where "minMonths = Fin 3"
definition maxMonths :: number where "maxMonths = Fin 24"
definition minApy :: number where "minApy = Fin (30 / 100)"
definition maxApy :: number where "maxApy = Fin 2"

definition apyFromTerm :: "number \<Rightarrow> number" where
  "apyFromTerm months =
     (let t = js_div (js_sub (js_min (js_max months minMonths) maxMonths) minMonths)
                     (js_sub maxMonths minMonths)
      in js_add minApy (js_mul t (js_sub maxApy minApy)))"

definition clamp :: "number \<Rightarrow> number \<Rightarrow> number \<Rightarrow> number" where
  "clamp v a b = js_min (js_max v a) b"

definition apyFromTerm_script :: "number \<Rightarrow> number" where
  "apyFromTerm_script months =
     (let t = js_div (js_sub (clamp months minMonths maxMonths) minMonths)
                     (js_sub maxMonths minMonths)
      in js_add minApy (js_mul t (js_sub maxApy minApy)))"

section \<open>The return projection\<close>

datatype error =
    MissingFields
  | UserExists
  | UserLimit
  | UserNotFound
  | Deactivated
  | InvalidPassword
  | InvalidAmount
  | WriteFailed
  | Uncaught

record projection =
  p_apy :: number
  p_finalAmount :: number
  p_interest :: number
  p_lockPeriod :: number

record body =
  req_email :: jsval
  req_password :: jsval
  req_userId :: jsval
  req_amount :: jsval
  req_lockPeriod :: jsval
  req_compoundType :: jsval
  req_transactionHash :: jsval

text \<open>\<open>POST /api/calculate\<close> of the server (first file of \<open>part_003\<close>).\<close>

definition calculate :: "body \<Rightarrow> error + projection" where
  "calculate b =
     (if \<not> truthy (req_amount b) \<or> \<not> truthy (req_lockPeriod b) then Inl MissingFields
      else
        let investmentAmount = parseFloat (req_amount b);
            months = parseInt (req_lockPeriod b)
        in
          if js_lt investmentAmount (Fin 500) \<or> js_gt investmentAmount (Fin 1000000)
          then Inl InvalidAmount
          else
            let rate = apyFromTerm months;
                finalAmount =
                  (if strict_eq (req_compoundType b) (JStr ''monthly'')
                   then js_mul investmentAmount (js_pow (js_add (Fin 1) rate) months)
                   else
                     let years = js_div months (Fin 12)
                     in js_mul investmentAmount (js_add (Fin 1) (js_mul rate years)));
                interest = js_sub finalAmount investmentAmount
            in Inr \<lparr>p_apy = js_mul rate (Fin 100), p_finalAmount = finalAmount,
                     p_interest = interest, p_lockPeriod = months\<rparr>)"

text \<open>
  \<open>calc\<close> of the pages (\<open>script.js\<close>, \<open>part_001\<close>, first script of \<open>part_002\<close>): the
  amount, the term and the mode are the values of three form fields.
\<close>

definition isNaN :: "number \<Rightarrow> bool" where
  "isNaN n = (n = NaN)"

definition calc :: "string \<Rightarrow> string \<Rightarrow> string \<Rightarrow> error + projection" where
  "calc amountValue termValue compound =
     (let principal = toNumber_str amountValue;
          months = toNumber_str termValue
      in
        if isNaN principal \<or> js_lt principal (Fin 500) \<or> js_gt principal (Fin 1000000)
        then Inl InvalidAmount
        else
          let rate = apyFromTerm_script months;
              finalAmount =
                (if compound = ''monthly''
                 then js_mul principal (js_pow (js_add (Fin 1) rate) months)
                 else
                   let years = js_div months (Fin 12)
                   in js_mul principal (js_add (Fin 1) (js_mul rate years)));
              interest = js_sub finalAmount principal
          in Inr \<lparr>p_apy = js_mul rate (Fin 100), p_finalAmount = finalAmount,
                   p_interest = interest, p_lockPeriod = months\<rparr>)"

text \<open>\<open>calc\<close> of the second script of \<open>part_002\<close>, which derives a monthly rate first.\<close>

definition calc_effective :: "string \<Rightarrow> string \<Rightarrow> string \<Rightarrow> error + projection" where
  "calc_effective amountValue termValue compound =
     (let principal = toNumber_str amountValue;
          months = toNumber_str termValue
      in
        if isNaN principal \<or> js_lt principal (Fin 500) \<or> js_gt principal (Fin 1000000)
        then Inl InvalidAmount
        else
          let rate = apyFromTerm_script months;
              finalAmount =
                (if compound = ''monthly''
                 then
                   let periods = months;
                       monthlyRate =
                         js_sub (js_pow (js_add (Fin 1) rate) (js_div (Fin 1) (Fin 12))) (Fin 1)
                   in js_mul principal (js_pow (js_add (Fin 1) monthlyRate) periods)
                 else js_mul principal (js_add (Fin 1) (js_mul rate (js_div months (Fin 12)))));
              interest = js_sub finalAmount principal
          in Inr \<lparr>p_apy = js_mul rate (Fin 100), p_finalAmount = finalAmount,
                   p_interest = interest, p_lockPeriod = months\<rparr>)"

section \<open>The stored documents\<close>

text \<open>
  Timestamps are kept as the milliseconds \<open>Date.now()\<close> returns; the servers store their
  ISO text. An array field that is absent is identified with the empty array, as every
  handler reads it (\<open>x || []\<close>, \<open>if (!x) x = []\<close>).
\<close>

record weekData =
  week :: int
  earnings :: number
  timestamp :: nat

record investment =
  inv_id :: string
  userId :: jsval
  amount :: number
  lockPeriod :: number
  compoundType :: jsval
  apy :: number
  transactionHash :: jsval
  startDate :: nat
  endDate :: int
  status :: string
  totalEarned :: number
  weeklyEarnings :: "weekData list"

record transaction =
  tx_id :: string
  tx_type :: string
  tx_amount :: number
  tx_timestamp :: nat
  tx_hash :: jsval

text \<open>
  A stored credential is either the text of a password or its bcrypt hash. The hash is a
  free constructor: two hashes are equal only for equal passwords, and the salt and the
  cost are left out.
\<close>

datatype credential = Plain string | Bcrypt string

record user =
  user_id :: string
  email :: jsval
  password :: credential
  createdAt :: nat
  lastLogin :: nat
  balance :: number
  totalEarnings :: number
  investments :: "investment list"
  isActive :: bool
  transactions :: "transaction list"

record settings_doc =
  wallet_address :: string

record database =
  users :: "user list"
  settings :: "settings_doc option"

text \<open>
  The file \<open>users.json\<close>: absent, present but not JSON, or holding a document of the
  shape the handlers write. The environment of a request is the value of \<open>Date.now()\<close>,
  one instant for the whole request, and whether the disk accepts a write.
\<close>

datatype db_file = Missing | Corrupt | Stored database

record env =
  now :: nat
  disk_ok :: bool

definition initialData :: database where
  "initialData =
     \<lparr>users = [],
      settings = Some \<lparr>wallet_address = ''0x71C7656EC7ab88b098defB751B7401B5f6d897AB''\<rparr>\<rparr>"

text \<open>
  \<open>readDatabase\<close> of the first server creates a missing file before reading it, and
  returns the default document on any exception.
\<close>

definition readDatabaseA :: "env \<Rightarrow> db_file \<Rightarrow> database \<times> db_file" where
  "readDatabaseA e f =
     (case f of
        Missing \<Rightarrow> (initialData, if disk_ok e then Stored initialData else Missing)
      | Corrupt \<Rightarrow> (initialData, Corrupt)
      | Stored d \<Rightarrow> (d, f))"

text \<open>\<open>readDatabase\<close> of the second server: its default document has no settings.\<close>

definition readDatabaseB :: "env \<Rightarrow> db_file \<Rightarrow> database \<times> db_file" where
  "readDatabaseB e f =
     (case f of
        Stored d \<Rightarrow> (d, f)
      | _ \<Rightarrow> (\<lparr>users = [], settings = None\<rparr>, f))"

definition writeDatabase :: "env \<Rightarrow> db_file \<Rightarrow> database \<Rightarrow> bool \<times> db_file" where
  "writeDatabase e f d = (if disk_ok e then (True, Stored d) else (False, f))"

subsection \<open>Helpers of the handlers\<close>

function decimal :: "nat \<Rightarrow> string" where
  "decimal n =
     (if n < 10 then [char_of (48 + n)] else decimal (n div 10) @ [char_of (48 + n mod 10)])"
  by pat_completeness auto
termination
  by (relation "measure (\<lambda>n. n)") auto

declare decimal.simps [simp del]

text \<open>
  \<open>xs.find(P)\<close> gives a reference to the first element that satisfies \<open>P\<close>; an
  assignment through it changes that element of the array.
\<close>

fun modify_first :: "('a \<Rightarrow> bool) \<Rightarrow> ('a \<Rightarrow> 'a) \<Rightarrow> 'a list \<Rightarrow> 'a list" where
  "modify_first P g [] = []"
| "modify_first P g (x # xs) = (if P x then g x # xs else x # modify_first P g xs)"

text \<open>bcryptjs rejects an argument that is not a string.\<close>

fun bcrypt_hash :: "jsval \<Rightarrow> credential option" where
  "bcrypt_hash (JStr s) = Some (Bcrypt s)"
| "bcrypt_hash _ = None"

fun bcrypt_compare :: "jsval \<Rightarrow> credential \<Rightarrow> bool option" where
  "bcrypt_compare (JStr s) (Bcrypt p) = Some (s = p)"
| "bcrypt_compare (JStr s) (Plain p) = Some False"
| "bcrypt_compare _ _ = None"

text \<open>
  \<open>new Date(v).toISOString()\<close> throws a RangeError unless \<open>v\<close> is finite and within
  8.64e15 milliseconds of the epoch.
\<close>

fun time_clip :: "number \<Rightarrow> int option" where
  "time_clip (Fin t) = (if \<bar>t\<bar> \<le> 8640000000000000 then Some (trunc t) else None)"
| "time_clip _ = None"

datatype reply =
    Registered string jsval number
  | LoggedIn string jsval number number "investment list"
  | Invested investment number
  | UserData string jsval number number "investment list" "transaction list" number
  | WalletAddress string
  | EarningsUpdated

section \<open>The two file-backed servers of \<open>part_003\<close>\<close>

text \<open>
  The two servers share the text of their handlers and differ in \<open>readDatabase\<close>, in
  the APY an investment is given, and in the earnings formulas. Each handler is written
  once, over these three, and instantiated for the first server (\<open>A\<close>, lines 1 to 410)
  and the second (\<open>B\<close>, lines 411 to 730). A handler returns its answer and the file
  it leaves.
\<close>

type_synonym reader = "env \<Rightarrow> db_file \<Rightarrow> database \<times> db_file"

definition register :: "reader \<Rightarrow> env \<Rightarrow> body \<Rightarrow> db_file \<Rightarrow> (error + reply) \<times> db_file" where
  "register rd e b f =
     (if \<not> truthy (req_email b) \<or> \<not> truthy (req_password b) then (Inl MissingFields, f)
      else
        case rd e f of (db, f1) \<Rightarrow>
          (case find (\<lambda>u. strict_eq (email u) (req_email b)) (users db) of
             Some existingUser \<Rightarrow> (Inl UserExists, f1)
           | None \<Rightarrow>
               if 10 \<le> length (users db) then (Inl UserLimit, f1)
               else
                 (case bcrypt_hash (req_password b) of
                    None \<Rightarrow> (Inl Uncaught, f1)
                  | Some hashedPassword \<Rightarrow>
                      let newUser =
                            \<lparr>user_id = ''user_'' @ decimal (now e),
                             email = req_email b,
                             password = hashedPassword,
                             createdAt = now e,
                             lastLogin = now e,
                             balance = Fin 0,
                             totalEarnings = Fin 0,
                             investments = [],
                             isActive = True,
                             transactions = []\<rparr>
                      in
                        (case writeDatabase e f1 (db\<lparr>users := users db @ [newUser]\<rparr>) of
                           (written, f2) \<Rightarrow>
                             if written
                             then (Inr (Registered (user_id newUser) (email newUser)
                                          (balance newUser)), f2)
                             else (Inl WriteFailed, f2)))))"

definition login :: "reader \<Rightarrow> env \<Rightarrow> body \<Rightarrow> db_file \<Rightarrow> (error + reply) \<times> db_file" where
  "login rd e b f =
     (if \<not> truthy (req_email b) \<or> \<not> truthy (req_password b) then (Inl MissingFields, f)
      else
        case rd e f of (db, f1) \<Rightarrow>
          (case find (\<lambda>u. strict_eq (email u) (req_email b)) (users db) of
             None \<Rightarrow> (Inl UserNotFound, f1)
           | Some u \<Rightarrow>
               if \<not> isActive u then (Inl Deactivated, f1)
               else
                 (case bcrypt_compare (req_password b) (password u) of
                    None \<Rightarrow> (Inl Uncaught, f1)
                  | Some validPassword \<Rightarrow>
                      if \<not> validPassword then (Inl InvalidPassword, f1)
                      else
                        let db' = db\<lparr>users :=
                                    modify_first (\<lambda>u. strict_eq (email u) (req_email b))
                                      (\<lambda>u. u\<lparr>lastLogin := now e\<rparr>) (users db)\<rparr>
                        in
                          (case writeDatabase e f1 db' of
                             (written, f2) \<Rightarrow>
                               (Inr (LoggedIn (user_id u) (email u) (balance u)
                                       (totalEarnings u) (investments u)), f2)))))"

text \<open>The APY line of the second server's \<open>/api/invest\<close>, which does not clamp.\<close>

definition apyInline :: "number \<Rightarrow> number" where
  "apyInline months =
     js_add (Fin (30 / 100))
       (js_mul (js_div (js_sub months (Fin 3)) (Fin 21)) (Fin (170 / 100)))"

definition invest ::
  "reader \<Rightarrow> (number \<Rightarrow> number) \<Rightarrow> env \<Rightarrow> body \<Rightarrow> db_file \<Rightarrow> (error + reply) \<times> db_file" where
  "invest rd curve e b f =
     (if \<not> truthy (req_userId b) \<or> \<not> truthy (req_amount b) \<or> \<not> truthy (req_lockPeriod b)
         \<or> \<not> truthy (req_transactionHash b)
      then (Inl MissingFields, f)
      else
        case rd e f of (db, f1) \<Rightarrow>
          (case find (\<lambda>u. strict_eq (JStr (user_id u)) (req_userId b)) (users db) of
             None \<Rightarrow> (Inl UserNotFound, f1)
           | Some u \<Rightarrow>
               let investmentAmount = parseFloat (req_amount b)
               in
                 if js_lt investmentAmount (Fin 500) \<or> js_gt investmentAmount (Fin 1000000)
                 then (Inl InvalidAmount, f1)
                 else
                   let rate = curve (toNumber (req_lockPeriod b))
                   in
                     (case time_clip
                             (js_add (Fin (of_nat (now e)))
                                (foldl js_mul (toNumber (req_lockPeriod b))
                                   [Fin 30, Fin 24, Fin 60, Fin 60, Fin 1000])) of
                        None \<Rightarrow> (Inl Uncaught, f1)
                      | Some ends \<Rightarrow>
                          let newInvestment =
                                \<lparr>inv_id = ''inv_'' @ decimal (now e),
                                 userId = req_userId b,
                                 amount = investmentAmount,
                                 lockPeriod = parseInt (req_lockPeriod b),
                                 compoundType =
                                   (if truthy (req_compoundType b) then req_compoundType b
                                    else JStr ''monthly''),
                                 apy = rate,
                                 transactionHash = req_transactionHash b,
                                 startDate = now e,
                                 endDate = ends,
                                 status = ''active'',
                                 totalEarned = Fin 0,
                                 weeklyEarnings = []\<rparr>;
                              deposit =
                                \<lparr>tx_id = ''tx_'' @ decimal (now e),
                                 tx_type = ''deposit'',
                                 tx_amount = investmentAmount,
                                 tx_timestamp = now e,
                                 tx_hash = req_transactionHash b\<rparr>;
                              newBalance = js_add (balance u) investmentAmount;
                              db' = db\<lparr>users :=
                                      modify_first
                                        (\<lambda>u. strict_eq (JStr (user_id u)) (req_userId b))
                                        (\<lambda>u. u\<lparr>balance := newBalance,
                                                investments := investments u @ [newInvestment],
                                                transactions := transactions u @ [deposit]\<rparr>)
                                        (users db)\<rparr>
                          in
                            (case writeDatabase e f1 db' of
                               (written, f2) \<Rightarrow>
                                 if written then (Inr (Invested newInvestment newBalance), f2)
                                 else (Inl WriteFailed, f2)))))"

text \<open>The weekly return \<open>GET /api/user/:userId\<close> adds up over the active investments.\<close>

definition weeklyReturnA :: "investment \<Rightarrow> number" where
  "weeklyReturnA iv =
     js_mul (amount iv)
       (js_sub (js_pow (js_add (Fin 1) (apy iv)) (js_div (Fin 1) (Fin 52))) (Fin 1))"

definition weeklyReturnB :: "investment \<Rightarrow> number" where
  "weeklyReturnB iv = js_div (js_mul (amount iv) (apy iv)) (Fin 52)"

definition getUser ::
  "reader \<Rightarrow> (investment \<Rightarrow> number) \<Rightarrow> env \<Rightarrow> string \<Rightarrow> db_file \<Rightarrow> (error + reply) \<times> db_file" where
  "getUser rd weeklyReturn e uid f =
     (case rd e f of (db, f1) \<Rightarrow>
        (case find (\<lambda>u. user_id u = uid) (users db) of
           None \<Rightarrow> (Inl UserNotFound, f1)
         | Some u \<Rightarrow>
             let activeInvestments = filter (\<lambda>iv. status iv = ''active'') (investments u);
                 weeklyGains =
                   foldl (\<lambda>total iv. js_add total (weeklyReturn iv)) (Fin 0) activeInvestments
             in (Inr (UserData (user_id u) (email u) (balance u) (totalEarnings u)
                        (investments u) (transactions u) weeklyGains), f1)))"

text \<open>\<open>db.settings.wallet_address\<close> throws a TypeError on a document without settings.\<close>

definition walletAddress :: "reader \<Rightarrow> env \<Rightarrow> db_file \<Rightarrow> (error + reply) \<times> db_file" where
  "walletAddress rd e f =
     (case rd e f of (db, f1) \<Rightarrow>
        (case settings db of
           None \<Rightarrow> (Inl Uncaught, f1)
         | Some s \<Rightarrow> (Inr (WalletAddress (wallet_address s)), f1)))"

subsection \<open>The accrual tick\<close>

definition dailyEarningsA :: "investment \<Rightarrow> number" where
  "dailyEarningsA iv =
     (let dailyRate =
            js_sub (js_pow (js_add (Fin 1) (apy iv)) (js_div (Fin 1) (Fin 365))) (Fin 1)
      in js_mul (amount iv) dailyRate)"

definition dailyEarningsB :: "investment \<Rightarrow> number" where
  "dailyEarningsB iv = js_div (js_mul (amount iv) (apy iv)) (Fin 365)"

definition weekOf :: "nat \<Rightarrow> investment \<Rightarrow> int" where
  "weekOf t iv = \<lfloor>(real t - real (startDate iv)) / (7 * 24 * 60 * 60 * 1000)\<rfloor>"

text \<open>
  The inner \<open>forEach\<close> over one user's investments; the pair is the user's balance and
  total earnings, which every active investment adds to in turn.
\<close>

fun accrue_investments ::
  "(investment \<Rightarrow> number) \<Rightarrow> nat \<Rightarrow> investment list \<Rightarrow> number \<times> number
     \<Rightarrow> investment list \<times> number \<times> number" where
  "accrue_investments daily t [] (bal, tot) = ([], bal, tot)"
| "accrue_investments daily t (iv # rest) (bal, tot) =
     (if status iv = ''active'' then
        (let dailyEarnings = daily iv;
             iv' = iv\<lparr>totalEarned := js_add (totalEarned iv) dailyEarnings,
                        weeklyEarnings := weeklyEarnings iv @
                          [\<lparr>week = weekOf t iv, earnings = dailyEarnings, timestamp = t\<rparr>]\<rparr>
         in case accrue_investments daily t rest
                   (js_add bal dailyEarnings, js_add tot dailyEarnings) of
              (rest', bal', tot') \<Rightarrow> (iv' # rest', bal', tot'))
      else
        (case accrue_investments daily t rest (bal, tot) of
           (rest', bal', tot') \<Rightarrow> (iv # rest', bal', tot')))"

definition accrue_user :: "(investment \<Rightarrow> number) \<Rightarrow> nat \<Rightarrow> user \<Rightarrow> user" where
  "accrue_user daily t u =
     (case accrue_investments daily t (investments u) (balance u, totalEarnings u) of
        (invs, bal, tot) \<Rightarrow> u\<lparr>investments := invs, balance := bal, totalEarnings := tot\<rparr>)"

definition updateEarnings ::
  "reader \<Rightarrow> (investment \<Rightarrow> number) \<Rightarrow> env \<Rightarrow> db_file \<Rightarrow> (error + reply) \<times> db_file" where
  "updateEarnings rd daily e f =
     (case rd e f of (db, f1) \<Rightarrow>
        (case writeDatabase e f1 (db\<lparr>users := map (accrue_user daily (now e)) (users db)\<rparr>) of
           (written, f2) \<Rightarrow>
             if written then (Inr EarningsUpdated, f2) else (Inl WriteFailed, f2)))"

subsection \<open>The instances\<close>

definition registerA :: "env \<Rightarrow> body \<Rightarrow> db_file \<Rightarrow> (error + reply) \<times> db_file" where
  "registerA = register readDatabaseA"

definition loginA :: "env \<Rightarrow> body \<Rightarrow> db_file \<Rightarrow> (error + reply) \<times> db_file" where
  "loginA = login readDatabaseA"

definition loginB :: "env \<Rightarrow> body \<Rightarrow> db_file \<Rightarrow> (error + reply) \<times> db_file" where
  "loginB = login readDatabaseB"

definition investA :: "env \<Rightarrow> body \<Rightarrow> db_file \<Rightarrow> (error + reply) \<times> db_file" where
  "investA = invest readDatabaseA apyFromTerm"

definition investB :: "env \<Rightarrow> body \<Rightarrow> db_file \<Rightarrow> (error + reply) \<times> db_file" where
  "investB = invest readDatabaseB apyInline"

definition getUserA :: "env \<Rightarrow> string \<Rightarrow> db_file \<Rightarrow> (error + reply) \<times> db_file" where
  "getUserA = getUser readDatabaseA weeklyReturnA"

definition getUserB :: "env \<Rightarrow> string \<Rightarrow> db_file \<Rightarrow> (error + reply) \<times> db_file" where
  "getUserB = getUser readDatabaseB weeklyReturnB"

definition walletAddressA :: "env \<Rightarrow> db_file \<Rightarrow> (error + reply) \<times> db_file" where
  "walletAddressA = walletAddress readDatabaseA"

definition walletAddressB :: "env \<Rightarrow> db_file \<Rightarrow> (error + reply) \<times> db_file" where
  "walletAddressB = walletAddress readDatabaseB"

definition updateEarningsA :: "env \<Rightarrow> db_file \<Rightarrow> (error + reply) \<times> db_file" where
  "updateEarningsA = updateEarnings readDatabaseA dailyEarningsA"

definition updateEarningsB :: "env \<Rightarrow> db_file \<Rightarrow> (error + reply) \<times> db_file" where
  "updateEarningsB = updateEarnings readDatabaseB dailyEarningsB"

section \<open>The in-memory server of \<open>part_004\<close>\<close>

record mem_investment =
  m_inv_id :: string
  m_userId :: jsval
  m_amount :: number
  m_lockPeriod :: number
  m_compoundType :: jsval
  m_apy :: number
  m_transactionHash :: jsval
  m_startDate :: nat
  m_status :: string

record mem_user =
  m_user_id :: string
  m_email :: jsval
  m_password :: credential
  m_createdAt :: nat
  m_balance :: number
  m_totalEarnings :: number
  m_investments :: "mem_investment list"

text \<open>
  \<open>POST /api/invest\<close> on the array \<open>users\<close>; nothing in the body of its \<open>try\<close> throws
  on the values modelled.
\<close>

definition investC ::
  "nat \<Rightarrow> body \<Rightarrow> mem_user list \<Rightarrow> (error + mem_investment \<times> number) \<times> mem_user list" where
  "investC t b us =
     (if \<not> truthy (req_userId b) \<or> \<not> truthy (req_amount b) \<or> \<not> truthy (req_lockPeriod b)
         \<or> \<not> truthy (req_transactionHash b)
      then (Inl MissingFields, us)
      else
        case find (\<lambda>u. strict_eq (JStr (m_user_id u)) (req_userId b)) us of
          None \<Rightarrow> (Inl UserNotFound, us)
        | Some u \<Rightarrow>
            let investmentAmount = parseFloat (req_amount b)
            in
              if js_lt investmentAmount (Fin 500) \<or> js_gt investmentAmount (Fin 1000000)
              then (Inl InvalidAmount, us)
              else
                let rate = apyFromTerm (toNumber (req_lockPeriod b));
                    newInvestment =
                      \<lparr>m_inv_id = ''inv_'' @ decimal t,
                       m_userId = req_userId b,
                       m_amount = investmentAmount,
                       m_lockPeriod = parseInt (req_lockPeriod b),
                       m_compoundType =
                         (if truthy (req_compoundType b) then req_compoundType b
                          else JStr ''monthly''),
                       m_apy = rate,
                       m_transactionHash = req_transactionHash b,
                       m_startDate = t,
                       m_status = ''active''\<rparr>;
                    newBalance = js_add (m_balance u) investmentAmount
                in
                  (Inr (newInvestment, newBalance),
                   modify_first (\<lambda>u. strict_eq (JStr (m_user_id u)) (req_userId b))
                     (\<lambda>u. u\<lparr>m_balance := newBalance,
                             m_investments := m_investments u @ [newInvestment]\<rparr>)
                     us))"

section \<open>The page without a server (\<open>script.js\<close>)\<close>

record 'i mock_user =
  mu_id :: string
  mu_email :: string
  mu_password :: string
  mu_createdAt :: "nat option"
  mu_balance :: number
  mu_totalEarnings :: number
  mu_investments :: "'i list"

record 'i localStorage =
  mockUsers :: "'i mock_user list option"
  currentUser :: "'i mock_user option"

definition initMockUsers :: "'i localStorage \<Rightarrow> 'i localStorage" where
  "initMockUsers ls =
     (if mockUsers ls = None then
        ls\<lparr>mockUsers :=
             Some [\<lparr>mu_id = ''user_1'',
                    mu_email = ''demo@yieldfarm.com'',
                    mu_password = ''password123'',
                    mu_createdAt = None,
                    mu_balance = Fin 15000,
                    mu_totalEarnings = Fin 1250,
                    mu_investments = []\<rparr>]\<rparr>
      else ls)"

definition registerUser ::
  "nat \<Rightarrow> string \<Rightarrow> string \<Rightarrow> 'i localStorage \<Rightarrow> (error + reply) \<times> 'i localStorage" where
  "registerUser t mail pass ls0 =
     (let ls = initMockUsers ls0;
          mocks = (case mockUsers ls of None \<Rightarrow> [] | Some us \<Rightarrow> us)
      in
        case find (\<lambda>u. mu_email u = mail) mocks of
          Some existingUser \<Rightarrow> (Inl UserExists, ls)
        | None \<Rightarrow>
            if 10 \<le> length mocks then (Inl UserLimit, ls)
            else
              let newUser =
                    \<lparr>mu_id = ''user_'' @ decimal t,
                     mu_email = mail,
                     mu_password = pass,
                     mu_createdAt = Some t,
                     mu_balance = Fin 0,
                     mu_totalEarnings = Fin 0,
                     mu_investments = []\<rparr>
              in
                (Inr (Registered (mu_id newUser) (JStr (mu_email newUser)) (mu_balance newUser)),
                 ls\<lparr>mockUsers := Some (mocks @ [newUser]), currentUser := Some newUser\<rparr>))"

section \<open>Reference formulas and named parts\<close>

subsection \<open>The curve over the reals\<close>

text \<open>
  The curve as the specification words it, over the reals: the term clamped into the range
  from 3 to 24 months, then interpolated between 30 and 200 per cent; and the answer of a
  projection with principal \<open>p\<close>, term \<open>n\<close> and final amount \<open>final\<close>.
\<close>

definition apy_curve :: "real \<Rightarrow> real" where
  "apy_curve t = 30 / 100 + (min (max t 3) 24 - 3) / (24 - 3) * (2 - 30 / 100)"

definition projection_of :: "real \<Rightarrow> real \<Rightarrow> real \<Rightarrow> projection" where
  "projection_of p n final =
     \<lparr>p_apy = Fin (apy_curve n * 100), p_finalAmount = Fin final,
      p_interest = Fin (final - p), p_lockPeriod = Fin n\<rparr>"

subsection \<open>Parts of the handlers\<close>

text \<open>
  The tests and the values the handlers compute inline, under names of their own. The
  handlers are proved equal to their reading over these parts before anything is stated
  with them (\<open>invest_unfold\<close>, \<open>investC_unfold\<close>, \<open>login_unfold\<close>,
  \<open>accrue_investments_eq\<close>).
\<close>

definition fields_missing :: "body \<Rightarrow> bool" where
  "fields_missing b =
     (\<not> truthy (req_userId b) \<or> \<not> truthy (req_amount b) \<or> \<not> truthy (req_lockPeriod b)
      \<or> \<not> truthy (req_transactionHash b))"

definition amount_rejected :: "body \<Rightarrow> bool" where
  "amount_rejected b =
     (js_lt (parseFloat (req_amount b)) (Fin 500)
      \<or> js_gt (parseFloat (req_amount b)) (Fin 1000000))"

text \<open>
  The end date \<open>/api/invest\<close> of the file-backed servers gives an investment, when the
  term yields a valid date.
\<close>

definition end_date :: "env \<Rightarrow> body \<Rightarrow> int option" where
  "end_date e b =
     time_clip
       (js_add (Fin (of_nat (now e)))
          (foldl js_mul (toNumber (req_lockPeriod b)) [Fin 30, Fin 24, Fin 60, Fin 60, Fin 1000]))"

text \<open>The investment and the deposit record a request creates, and the account after it.\<close>

definition new_investment :: "(number \<Rightarrow> number) \<Rightarrow> env \<Rightarrow> body \<Rightarrow> int \<Rightarrow> investment" where
  "new_investment curve e b ends =
     \<lparr>inv_id = ''inv_'' @ decimal (now e),
      userId = req_userId b,
      amount = parseFloat (req_amount b),
      lockPeriod = parseInt (req_lockPeriod b),
      compoundType = (if truthy (req_compoundType b) then req_compoundType b else JStr ''monthly''),
      apy = curve (toNumber (req_lockPeriod b)),
      transactionHash = req_transactionHash b,
      startDate = now e,
      endDate = ends,
      status = ''active'',
      totalEarned = Fin 0,
      weeklyEarnings = []\<rparr>"

definition credited :: "env \<Rightarrow> body \<Rightarrow> investment \<Rightarrow> number \<Rightarrow> user \<Rightarrow> user" where
  "credited e b iv bal u =
     u\<lparr>balance := bal,
       investments := investments u @ [iv],
       transactions := transactions u @
         [\<lparr>tx_id = ''tx_'' @ decimal (now e), tx_type = ''deposit'',
           tx_amount = parseFloat (req_amount b), tx_timestamp = now e,
           tx_hash = req_transactionHash b\<rparr>]\<rparr>"

definition mem_investment_of :: "nat \<Rightarrow> body \<Rightarrow> mem_investment" where
  "mem_investment_of t b =
     \<lparr>m_inv_id = ''inv_'' @ decimal t,
      m_userId = req_userId b,
      m_amount = parseFloat (req_amount b),
      m_lockPeriod = parseInt (req_lockPeriod b),
      m_compoundType =
        (if truthy (req_compoundType b) then req_compoundType b else JStr ''monthly''),
      m_apy = apyFromTerm (toNumber (req_lockPeriod b)),
      m_transactionHash = req_transactionHash b,
      m_startDate = t,
      m_status = ''active''\<rparr>"

definition mem_credited :: "mem_investment \<Rightarrow> number \<Rightarrow> mem_user \<Rightarrow> mem_user" where
  "mem_credited iv bal u = u\<lparr>m_balance := bal, m_investments := m_investments u @ [iv]\<rparr>"

text \<open>The account a body names, by its identifier or by its email.\<close>

definition owner :: "body \<Rightarrow> user \<Rightarrow> bool" where
  "owner b u = strict_eq (JStr (user_id u)) (req_userId b)"

definition mem_owner :: "body \<Rightarrow> mem_user \<Rightarrow> bool" where
  "mem_owner b u = strict_eq (JStr (m_user_id u)) (req_userId b)"

definition account :: "body \<Rightarrow> user \<Rightarrow> bool" where
  "account b u = strict_eq (email u) (req_email b)"

text \<open>What a tick makes of one active investment, given the earnings formula.\<close>

definition active :: "investment \<Rightarrow> bool" where
  "active iv = (status iv = ''active'')"

definition accrued :: "(investment \<Rightarrow> number) \<Rightarrow> nat \<Rightarrow> investment \<Rightarrow> investment" where
  "accrued daily t iv =
     iv\<lparr>totalEarned := js_add (totalEarned iv) (daily iv),
        weeklyEarnings := weeklyEarnings iv @
          [\<lparr>week = weekOf t iv, earnings = daily iv, timestamp = t\<rparr>]\<rparr>"

text \<open>The investments an answer carries.\<close>

fun investments_of :: "error + reply \<Rightarrow> investment list" where
  "investments_of (Inr (UserData i m bal tot invs txs gains)) = invs"

subsection \<open>Request bodies and a small store\<close>

text \<open>
  The bodies \<open>{amount, lockPeriod, compoundType}\<close>, \<open>{userId, amount, lockPeriod,
  compoundType, transactionHash}\<close> and \<open>{email, password}\<close>.
\<close>

definition calc_body :: "jsval \<Rightarrow> jsval \<Rightarrow> jsval \<Rightarrow> body" where
  "calc_body a l c =
     \<lparr>req_email = JUndefined, req_password = JUndefined, req_userId = JUndefined,
      req_amount = a, req_lockPeriod = l, req_compoundType = c,
      req_transactionHash = JUndefined\<rparr>"

definition invest_body :: "jsval \<Rightarrow> jsval \<Rightarrow> jsval \<Rightarrow> jsval \<Rightarrow> jsval \<Rightarrow> body" where
  "invest_body u a l c h =
     \<lparr>req_email = JUndefined, req_password = JUndefined, req_userId = u,
      req_amount = a, req_lockPeriod = l, req_compoundType = c,
      req_transactionHash = h\<rparr>"

definition auth_body :: "jsval \<Rightarrow> jsval \<Rightarrow> body" where
  "auth_body m p =
     \<lparr>req_email = m, req_password = p, req_userId = JUndefined, req_amount = JUndefined,
      req_lockPeriod = JUndefined, req_compoundType = JUndefined,
      req_transactionHash = JUndefined\<rparr>"

text \<open>
  A small store: one account holding one active investment of 1000 at 30 per cent, read
  at the instant 2000 with a writable disk; the same account in the array of \<open>part_004\<close>;
  and a request of that account for 1000 over a given term.
\<close>

definition demo_investment :: investment where
  "demo_investment =
     \<lparr>inv_id = ''inv_1000'', userId = JStr ''user_1000'', amount = Fin 1000, lockPeriod = Fin 3,
      compoundType = JStr ''monthly'', apy = Fin (30 / 100), transactionHash = JStr ''0xabc'',
      startDate = 1000, endDate = 7776001000, status = ''active'', totalEarned = Fin 0,
      weeklyEarnings = []\<rparr>"

definition demo_user :: user where
  "demo_user =
     \<lparr>user_id = ''user_1000'', email = JStr ''a@b.c'', password = Bcrypt ''secret'',
      createdAt = 1000, lastLogin = 1000, balance = Fin 1000, totalEarnings = Fin 0,
      investments = [demo_investment], isActive = True, transactions = []\<rparr>"

definition demo_db :: database where
  "demo_db = initialData\<lparr>users := [demo_user]\<rparr>"

definition demo_env :: env where
  "demo_env = \<lparr>now = 2000, disk_ok = True\<rparr>"

definition demo_mem_user :: mem_user where
  "demo_mem_user =
     \<lparr>m_user_id = ''user_1000'', m_email = JStr ''a@b.c'', m_password = Bcrypt ''secret'',
      m_createdAt = 1000, m_balance = Fin 0, m_totalEarnings = Fin 0, m_investments = []\<rparr>"

definition demo_request :: "jsval \<Rightarrow> body" where
  "demo_request l =
     invest_body (JStr ''user_1000'') (JNum (Fin 1000)) l (JStr ''monthly'') (JStr ''0xabc'')"

section \<open>Properties of the curve and of the projection\<close>

lemmas curve_defs = apyFromTerm_def apyFromTerm_script_def clamp_def minMonths_def maxMonths_def
  minApy_def maxApy_def js_sub_def apy_curve_def

lemma apyFromTerm_Fin: "apyFromTerm (Fin t) = Fin (apy_curve t)"
  by (simp add: curve_defs min_def max_def)

lemma apyFromTerm_script_eq: "apyFromTerm_script m = apyFromTerm m"
  by (simp add: apyFromTerm_def apyFromTerm_script_def clamp_def)

lemma apy_curve_bounds: "30 / 100 \<le> apy_curve t \<and> apy_curve t \<le> 2"
  by (auto simp add: apy_curve_def min_def max_def divide_simps)

lemma apy_curve_mono: "s \<le> t \<Longrightarrow> apy_curve s \<le> apy_curve t"
  by (simp add: apy_curve_def min_def max_def)

lemma js_pow_pos: "0 < x \<Longrightarrow> js_pow (Fin x) (Fin n) = Fin (x powr n)"
proof -
  assume x: "0 < x"
  show ?thesis
  proof (cases "is_integer n")
    case True
    then have "n = of_int \<lfloor>n\<rfloor>" by (simp add: is_integer_def)
    then have "x powr n = x powi \<lfloor>n\<rfloor>"
      using x powr_real_of_int' [of x "\<lfloor>n\<rfloor>"] by simp
    then show ?thesis using x True by simp
  next
    case False
    then have "n \<noteq> 0" by (auto simp: is_integer_def)
    then show ?thesis using x False by simp
  qed
qed

text \<open>
  Claim C2. On every finite term the curve is 0.30 + (clamp(term, 3, 24) - 3) / (24 - 3) *
  (2.00 - 0.30), in the servers' function and in the pages' one alike; it is 0.30 at 3,
  2.00 at 24 and 1.15 at 13.5; a term of 1 gives what 3 gives and a term of 100 what 24
  gives, as do the two infinities; it never decreases, and between 3 and 24 it is the
  line through these two points.
\<close>

theorem apyFromTerm_curve:
  "apyFromTerm (Fin t) = Fin (30 / 100 + (min (max t 3) 24 - 3) / (24 - 3) * (2 - 30 / 100))
   \<and> apyFromTerm_script (Fin t) = apyFromTerm (Fin t)
   \<and> apyFromTerm (Fin 3) = Fin (30 / 100)
   \<and> apyFromTerm (Fin 24) = Fin 2
   \<and> apyFromTerm (Fin (135 / 10)) = Fin (115 / 100)
   \<and> apyFromTerm (Fin 1) = apyFromTerm (Fin 3)
   \<and> apyFromTerm (Fin 100) = apyFromTerm (Fin 24)
   \<and> apyFromTerm NegInf = apyFromTerm (Fin 3)
   \<and> apyFromTerm PosInf = apyFromTerm (Fin 24)
   \<and> (s \<le> t \<longrightarrow>
        (\<exists>a b. apyFromTerm (Fin s) = Fin a \<and> apyFromTerm (Fin t) = Fin b \<and> a \<le> b))
   \<and> (3 \<le> t \<and> t \<le> 24 \<longrightarrow> apyFromTerm (Fin t) = Fin (30 / 100 + (t - 3) * ((2 - 30 / 100) / 21)))"
proof -
  have gen: "apyFromTerm (Fin t) = Fin (30 / 100 + (min (max t 3) 24 - 3) / (24 - 3) * (2 - 30 / 100))"
    by (simp add: apyFromTerm_Fin apy_curve_def)
  have scr: "apyFromTerm_script (Fin t) = apyFromTerm (Fin t)"
    by (rule apyFromTerm_script_eq)
  have v: "apyFromTerm (Fin 3) = Fin (30 / 100)" "apyFromTerm (Fin 24) = Fin 2"
    "apyFromTerm (Fin (135 / 10)) = Fin (115 / 100)"
    "apyFromTerm (Fin 1) = apyFromTerm (Fin 3)" "apyFromTerm (Fin 100) = apyFromTerm (Fin 24)"
    by (simp_all add: apyFromTerm_Fin apy_curve_def)
  have inf: "apyFromTerm NegInf = apyFromTerm (Fin 3)" "apyFromTerm PosInf = apyFromTerm (Fin 24)"
    by (simp_all add: curve_defs)
  have mono: "s \<le> t \<longrightarrow>
        (\<exists>a b. apyFromTerm (Fin s) = Fin a \<and> apyFromTerm (Fin t) = Fin b \<and> a \<le> b)"
    by (simp add: apyFromTerm_Fin apy_curve_mono)
  have lin: "3 \<le> t \<and> t \<le> 24 \<longrightarrow> apyFromTerm (Fin t) = Fin (30 / 100 + (t - 3) * ((2 - 30 / 100) / 21))"
    by (simp add: apyFromTerm_Fin apy_curve_def)
  show ?thesis using gen scr v inf mono lin by blast
qed

text \<open>The terms 6 and 12 satisfy the hypotheses of the monotonicity and of the linearity.\<close>

theorem apyFromTerm_curve_witness:
  "(6 :: real) \<le> 12 \<and> (3 :: real) \<le> 12 \<and> (12 :: real) \<le> 24
   \<and> (\<exists>a b. apyFromTerm (Fin 6) = Fin a \<and> apyFromTerm (Fin 12) = Fin b \<and> a \<le> b)
   \<and> apyFromTerm (Fin 12) = Fin (30 / 100 + (12 - 3) * ((2 - 30 / 100) / 21))"
  using apyFromTerm_curve [of 12 6] by (simp add: apyFromTerm_Fin apy_curve_def)

lemma gate_Fin:
  "500 \<le> p \<Longrightarrow> p \<le> 1000000 \<Longrightarrow>
     \<not> (js_lt (Fin p) (Fin 500) \<or> js_gt (Fin p) (Fin 1000000)) \<and> \<not> isNaN (Fin p)"
  by (simp add: js_gt_def isNaN_def)

lemma one_plus_apy_pos: "0 < 1 + apy_curve n"
  using apy_curve_bounds [of n] by linarith

lemma calculate_value:
  assumes "500 \<le> p" and "p \<le> 1000000"
    and "truthy (req_amount b)" and "truthy (req_lockPeriod b)"
    and "parseFloat (req_amount b) = Fin p" and "parseInt (req_lockPeriod b) = Fin n"
  shows "calculate b =
        Inr (projection_of p n
          (if strict_eq (req_compoundType b) (JStr ''monthly'')
           then p * (1 + apy_curve n) powr n else p * (1 + apy_curve n * (n / 12))))"
  using assms(3-) gate_Fin [OF assms(1,2)]
  by (simp add: calculate_def Let_def apyFromTerm_Fin js_pow_pos [OF one_plus_apy_pos]
      projection_of_def js_sub_def del: js_pow.simps)

lemma calc_value:
  assumes "500 \<le> p" and "p \<le> 1000000"
    and "toNumber_str amountValue = Fin p" and "toNumber_str termValue = Fin n"
  shows "calc amountValue termValue compound =
        Inr (projection_of p n
          (if compound = ''monthly''
           then p * (1 + apy_curve n) powr n else p * (1 + apy_curve n * (n / 12))))"
  using assms(3-) gate_Fin [OF assms(1,2)]
  by (simp add: calc_def Let_def apyFromTerm_script_eq apyFromTerm_Fin
      js_pow_pos [OF one_plus_apy_pos] projection_of_def js_sub_def del: js_pow.simps)

lemma calc_effective_value:
  assumes "500 \<le> p" and "p \<le> 1000000"
    and "toNumber_str amountValue = Fin p" and "toNumber_str termValue = Fin n"
  shows "calc_effective amountValue termValue compound =
        Inr (projection_of p n
          (if compound = ''monthly''
           then p * (1 + apy_curve n) powr (n / 12) else p * (1 + apy_curve n * (n / 12))))"
proof -
  have eff: "js_pow (Fin ((1 + apy_curve n) powr (1 / 12))) (Fin n)
      = Fin ((1 + apy_curve n) powr (n / 12))"
    using js_pow_pos [of "(1 + apy_curve n) powr (1 / 12)" n] one_plus_apy_pos [of n]
    by (simp add: powr_powr)
  show ?thesis
    using assms(3-) gate_Fin [OF assms(1,2)]
    by (simp add: calc_effective_def Let_def apyFromTerm_script_eq apyFromTerm_Fin
        js_pow_pos [OF one_plus_apy_pos] eff projection_of_def js_sub_def del: js_pow.simps)
qed

lemma toNumber_str_examples:
  "toNumber_str ''1000'' = Fin 1000" "toNumber_str ''12'' = Fin 12"
  "toNumber_str ''24'' = Fin 24"
  by code_simp+

text \<open>
  Claim C1, as amended. For a principal between 500 and 1,000,000 and a term \<open>n\<close>, with
  the rate the curve gives at \<open>n\<close>: the server's \<open>/api/calculate\<close> and the \<open>calc\<close> of
  \<open>script.js\<close>, \<open>part_001\<close> and the first script of \<open>part_002\<close> return, in mode monthly,
  final = principal * (1 + rate) ^ n, the annual rate applied once per month; the \<open>calc\<close>
  of the second script of \<open>part_002\<close> returns final = principal * (1 + rate) ^ (n / 12),
  the rate converted to a monthly one first. In every variant the other mode returns
  final = principal * (1 + rate * n / 12), and interest = final - principal.
\<close>

theorem projection_formulas:
  assumes "500 \<le> p" and "p \<le> 1000000"
  shows
    "(truthy (req_amount b) \<and> truthy (req_lockPeriod b) \<and> parseFloat (req_amount b) = Fin p
        \<and> parseInt (req_lockPeriod b) = Fin n \<longrightarrow>
      calculate b =
        Inr (projection_of p n
          (if strict_eq (req_compoundType b) (JStr ''monthly'')
           then p * (1 + apy_curve n) powr n else p * (1 + apy_curve n * (n / 12)))))
     \<and> (toNumber_str amountValue = Fin p \<and> toNumber_str termValue = Fin n \<longrightarrow>
      calc amountValue termValue compound =
        Inr (projection_of p n
          (if compound = ''monthly''
           then p * (1 + apy_curve n) powr n else p * (1 + apy_curve n * (n / 12))))
      \<and> calc_effective amountValue termValue compound =
        Inr (projection_of p n
          (if compound = ''monthly''
           then p * (1 + apy_curve n) powr (n / 12) else p * (1 + apy_curve n * (n / 12)))))"
  using calculate_value [OF assms] calc_value [OF assms] calc_effective_value [OF assms]
  by blast

text \<open>A principal of 1000 over 12 months, through each of the three variants.\<close>

theorem projection_formulas_witness:
  "(500 :: real) \<le> 1000 \<and> (1000 :: real) \<le> 1000000
   \<and> truthy (JNum (Fin 1000)) \<and> truthy (JNum (Fin 12))
   \<and> parseFloat (JNum (Fin 1000)) = Fin 1000 \<and> parseInt (JNum (Fin 12)) = Fin 12
   \<and> toNumber_str ''1000'' = Fin 1000 \<and> toNumber_str ''12'' = Fin 12
   \<and> calculate (calc_body (JNum (Fin 1000)) (JNum (Fin 12)) (JStr ''monthly''))
       = Inr (projection_of 1000 12 (1000 * (1 + apy_curve 12) ^ 12))
   \<and> calc ''1000'' ''12'' ''simple''
       = Inr (projection_of 1000 12 (1000 * (1 + apy_curve 12 * (12 / 12))))
   \<and> calc_effective ''1000'' ''12'' ''monthly''
       = Inr (projection_of 1000 12 (1000 * (1 + apy_curve 12)))"
proof -
  have pos: "0 < 1 + apy_curve 12" by (rule one_plus_apy_pos)
  have tr: "parseInt (JNum (Fin 12)) = Fin 12" by (simp add: trunc_def)
  show ?thesis
    using projection_formulas [of 1000 "calc_body (JNum (Fin 1000)) (JNum (Fin 12)) (JStr ''monthly'')" 12
        "''1000''" "''12''" "''simple''"]
      projection_formulas [of 1000 "calc_body (JNum (Fin 1000)) (JNum (Fin 12)) (JStr ''monthly'')" 12
        "''1000''" "''12''" "''monthly''"] pos
    by (simp add: calc_body_def strict_eq_def toNumber_str_examples trunc_def powr_numeral)
qed

text \<open>
  Claim C1 as stated fails on the second script of \<open>part_002\<close>: 1000 over 24 months at the
  rate 2 gives 9000 there, not 1000 * 3 ^ 24.
\<close>

theorem calc_effective_counterexample:
  "calc_effective ''1000'' ''24'' ''monthly''
     = Inr \<lparr>p_apy = Fin 200, p_finalAmount = Fin 9000, p_interest = Fin 8000,
            p_lockPeriod = Fin 24\<rparr>
   \<and> apyFromTerm_script (Fin 24) = Fin 2
   \<and> Fin 9000 \<noteq> Fin (1000 * (1 + 2) ^ 24)"
proof -
  have a: "apy_curve 24 = 2" by (simp add: apy_curve_def)
  have "calc_effective ''1000'' ''24'' ''monthly'' = Inr (projection_of 1000 24 (1000 * (1 + apy_curve 24) powr (24 / 12)))"
    using calc_effective_value [of 1000 "''1000''" "''24''" 24 "''monthly''"]
    by (simp add: toNumber_str_examples)
  then show ?thesis
    by (simp add: a projection_of_def apyFromTerm_script_eq apyFromTerm_Fin powr_numeral)
qed

section \<open>Properties of the accrual tick\<close>

lemma accrue_investments_eq:
  "accrue_investments daily t ivs (bal, tot) =
     (map (\<lambda>iv. if active iv then accrued daily t iv else iv) ivs,
      foldl js_add bal (map daily (filter active ivs)),
      foldl js_add tot (map daily (filter active ivs)))"
  by (induction ivs arbitrary: bal tot) (simp_all add: Let_def accrued_def active_def)

lemma accrue_user_eq:
  "accrue_user daily t u =
     u\<lparr>investments := map (\<lambda>iv. if active iv then accrued daily t iv else iv) (investments u),
       balance := foldl js_add (balance u) (map daily (filter active (investments u))),
       totalEarnings := foldl js_add (totalEarnings u) (map daily (filter active (investments u)))\<rparr>"
  by (simp add: accrue_user_def accrue_investments_eq)

lemma accrue_user_idle:
  "\<forall>iv \<in> set (investments u). \<not> active iv \<Longrightarrow> accrue_user daily t u = u"
proof -
  assume a: "\<forall>iv \<in> set (investments u). \<not> active iv"
  then have f: "filter active (investments u) = []" by (simp add: filter_empty_conv)
  have m: "map (\<lambda>iv. if active iv then accrued daily t iv else iv) (investments u) = investments u"
    using a by (simp add: map_idI)
  show ?thesis by (simp add: accrue_user_eq f m)
qed

lemma dailyEarningsB_Fin:
  "amount iv = Fin p \<Longrightarrow> apy iv = Fin a \<Longrightarrow> dailyEarningsB iv = Fin (p * a / 365)"
  by (simp add: dailyEarningsB_def)

lemma dailyEarningsA_Fin:
  "amount iv = Fin p \<Longrightarrow> apy iv = Fin a \<Longrightarrow> - 1 < a \<Longrightarrow>
     dailyEarningsA iv = Fin (p * ((1 + a) powr (1 / 365) - 1))"
  using js_pow_pos [of "1 + a" "1 / 365"]
  by (simp add: dailyEarningsA_def js_sub_def del: js_pow.simps)

lemma updateEarnings_Stored:
  "disk_ok e \<Longrightarrow>
     updateEarningsA e (Stored db)
       = (Inr EarningsUpdated, Stored (db\<lparr>users := map (accrue_user dailyEarningsA (now e)) (users db)\<rparr>))
     \<and> updateEarningsB e (Stored db)
       = (Inr EarningsUpdated, Stored (db\<lparr>users := map (accrue_user dailyEarningsB (now e)) (users db)\<rparr>))"
  by (simp add: updateEarningsA_def updateEarningsB_def updateEarnings_def readDatabaseA_def
      readDatabaseB_def writeDatabase_def)

lemma compound_daily_rate: "(13 / 10 :: real) powr (1 / 365) - 1 < (3 / 10) / 365"
proof -
  let ?y = "(13 / 10 :: real) powr (1 / 365)"
  let ?x = "(3 / 3650 :: real)"
  have y: "0 < ?y" by simp
  have "?y ^ 365 = ?y powr (real 365)" using y by (simp only: powr_realpow)
  also have "\<dots> = 13 / 10" by (simp add: powr_powr)
  finally have p: "?y ^ 365 = 13 / 10" .
  have "1 + 363 * ?x \<le> (1 + ?x) ^ 363"
    using Bernoulli_inequality [of ?x 363] by simp
  then have "(1 + ?x) ^ 2 * (1 + 363 * ?x) \<le> (1 + ?x) ^ 2 * (1 + ?x) ^ 363"
    by (intro mult_left_mono) simp_all
  also have "\<dots> = (1 + ?x) ^ 365" by (simp add: power_add [symmetric])
  finally have "(1 + ?x) ^ 2 * (1 + 363 * ?x) \<le> (1 + ?x) ^ 365" .
  moreover have "13 / 10 < (1 + ?x) ^ 2 * (1 + 363 * ?x)" by (simp add: power2_eq_square)
  ultimately have lt: "?y ^ 365 < (1 + ?x) ^ 365" using p by linarith
  have "0 \<le> 1 + ?x" by simp
  with lt have "?y < 1 + ?x" by (rule power_less_imp_less_base)
  then show ?thesis by simp
qed

text \<open>
  Claim C3, as amended. With a writable store, one tick of either server replaces every
  account by its accrued one. For each active investment, in turn, the tick adds the
  investment's earned amount to its \<open>totalEarned\<close>, to the owner's balance and to the
  owner's \<open>totalEarnings\<close>, and appends one period record holding that amount; an
  investment that is not active is left as it is and adds nothing, so an account without
  an active investment is unchanged. The earned amount is principal * apy / 365 in the
  second server, and principal * ((1 + apy) ^ (1 / 365) - 1), a compounded daily rate,
  in the first.
\<close>

theorem accrual_tick:
  "(disk_ok e \<longrightarrow>
      updateEarningsA e (Stored db)
        = (Inr EarningsUpdated,
           Stored (db\<lparr>users := map (accrue_user dailyEarningsA (now e)) (users db)\<rparr>))
      \<and> updateEarningsB e (Stored db)
        = (Inr EarningsUpdated,
           Stored (db\<lparr>users := map (accrue_user dailyEarningsB (now e)) (users db)\<rparr>)))
   \<and> accrue_user daily t u =
       u\<lparr>investments := map (\<lambda>iv. if active iv then accrued daily t iv else iv) (investments u),
         balance := foldl js_add (balance u) (map daily (filter active (investments u))),
         totalEarnings :=
           foldl js_add (totalEarnings u) (map daily (filter active (investments u)))\<rparr>
   \<and> ((\<forall>iv \<in> set (investments u). \<not> active iv) \<longrightarrow> accrue_user daily t u = u)
   \<and> (amount iv = Fin p \<and> apy iv = Fin a \<longrightarrow>
        dailyEarningsB iv = Fin (p * a / 365)
        \<and> (- 1 < a \<longrightarrow> dailyEarningsA iv = Fin (p * ((1 + a) powr (1 / 365) - 1))))"
  using updateEarnings_Stored [of e db] accrue_user_eq [of daily t u]
    accrue_user_idle [of u daily t] dailyEarningsB_Fin [of iv p a] dailyEarningsA_Fin [of iv p a]
  by blast

text \<open>The small store, and the same account with its investment closed.\<close>

theorem accrual_tick_witness:
  "disk_ok demo_env
   \<and> \<not> active (demo_investment\<lparr>status := ''closed''\<rparr>)
   \<and> amount demo_investment = Fin 1000 \<and> apy demo_investment = Fin (30 / 100)
   \<and> - 1 < (30 / 100 :: real)
   \<and> updateEarningsB demo_env (Stored demo_db)
       = (Inr EarningsUpdated,
          Stored (demo_db\<lparr>users := map (accrue_user dailyEarningsB 2000) [demo_user]\<rparr>))
   \<and> accrue_user dailyEarningsB 2000 (demo_user\<lparr>investments := [demo_investment\<lparr>status := ''closed''\<rparr>]\<rparr>)
       = demo_user\<lparr>investments := [demo_investment\<lparr>status := ''closed''\<rparr>]\<rparr>
   \<and> dailyEarningsB demo_investment = Fin (1000 * (30 / 100) / 365)
   \<and> dailyEarningsA demo_investment = Fin (1000 * ((1 + 30 / 100) powr (1 / 365) - 1))"
proof -
  have h: "disk_ok demo_env" "now demo_env = 2000" "users demo_db = [demo_user]"
    "\<forall>iv \<in> set (investments (demo_user\<lparr>investments := [demo_investment\<lparr>status := ''closed''\<rparr>]\<rparr>)).
         \<not> active iv"
    "amount demo_investment = Fin 1000" "apy demo_investment = Fin (30 / 100)"
    "\<not> active (demo_investment\<lparr>status := ''closed''\<rparr>)"
    by (simp_all add: demo_env_def demo_db_def demo_investment_def active_def)
  show ?thesis
    using h accrual_tick [of demo_env demo_db dailyEarningsB 2000
        "demo_user\<lparr>investments := [demo_investment\<lparr>status := ''closed''\<rparr>]\<rparr>"
        demo_investment 1000 "30 / 100"]
    by simp
qed

text \<open>
  Claim C3 as stated fails on the first server: one tick on the small store earns
  1000 * (1.3 ^ (1 / 365) - 1), which is not 1000 * 0.30 / 365.
\<close>

theorem compound_daily_counterexample:
  "updateEarningsA demo_env (Stored demo_db)
     = (Inr EarningsUpdated,
        Stored (demo_db\<lparr>users :=
          [demo_user\<lparr>investments :=
             [demo_investment
                \<lparr>totalEarned := Fin (1000 * ((13 / 10) powr (1 / 365) - 1)),
                 weeklyEarnings :=
                   [\<lparr>week = 0, earnings = Fin (1000 * ((13 / 10) powr (1 / 365) - 1)),
                     timestamp = 2000\<rparr>]\<rparr>],
             balance := Fin (1000 + 1000 * ((13 / 10) powr (1 / 365) - 1)),
             totalEarnings := Fin (1000 * ((13 / 10) powr (1 / 365) - 1))\<rparr>]\<rparr>))
   \<and> Fin (1000 * ((13 / 10) powr (1 / 365) - 1)) \<noteq> Fin (1000 * (30 / 100) / 365)"
proof -
  have d: "dailyEarningsA demo_investment = Fin (1000 * ((13 / 10) powr (1 / 365) - 1))"
    using dailyEarningsA_Fin [of demo_investment 1000 "30 / 100"]
    by (simp add: demo_investment_def)
  have act: "active demo_investment" by (simp add: active_def demo_investment_def)
  have w: "weekOf 2000 demo_investment = 0" by (simp add: weekOf_def demo_investment_def)
  have u: "accrue_user dailyEarningsA 2000 demo_user =
      demo_user\<lparr>investments :=
             [demo_investment
                \<lparr>totalEarned := Fin (1000 * ((13 / 10) powr (1 / 365) - 1)),
                 weeklyEarnings :=
                   [\<lparr>week = 0, earnings = Fin (1000 * ((13 / 10) powr (1 / 365) - 1)),
                     timestamp = 2000\<rparr>]\<rparr>],
             balance := Fin (1000 + 1000 * ((13 / 10) powr (1 / 365) - 1)),
             totalEarnings := Fin (1000 * ((13 / 10) powr (1 / 365) - 1))\<rparr>"
  proof -
    have f: "investments demo_user = [demo_investment]" "balance demo_user = Fin 1000"
      "totalEarnings demo_user = Fin 0" "totalEarned demo_investment = Fin 0"
      "weeklyEarnings demo_investment = []"
      by (simp_all add: demo_user_def demo_investment_def)
    show ?thesis by (simp add: accrue_user_eq accrued_def act d w f)
  qed
  have ne: "(1000 * ((13 / 10) powr (1 / 365) - 1) :: real) \<noteq> 1000 * (30 / 100) / 365"
    using compound_daily_rate by simp
  have run: "updateEarningsA demo_env (Stored demo_db)
       = (Inr EarningsUpdated,
          Stored (demo_db\<lparr>users := [accrue_user dailyEarningsA 2000 demo_user]\<rparr>))"
    using updateEarnings_Stored [of demo_env demo_db] by (simp add: demo_env_def demo_db_def)
  show ?thesis
    unfolding run u using ne by simp
qed

section \<open>Properties of the creation of an investment\<close>

text \<open>
  Claim C5 fails on the code. The amount \<open>"abc"\<close> is truthy and parses to \<open>NaN\<close>, which
  is neither below 500 nor above 1,000,000: both servers create the investment and turn
  the balance of the account into \<open>NaN\<close>. The calculator of the pages tests
  \<open>Number.isNaN\<close> first and rejects the same amount.
\<close>

theorem invest_accepts_NaN:
  "parseFloat (JStr ''abc'') = NaN
   \<and> investA demo_env
       (invest_body (JStr ''user_1000'') (JStr ''abc'') (JNum (Fin 12)) (JStr ''monthly'')
          (JStr ''0xabc''))
       (Stored demo_db)
     = (Inr (Invested
          \<lparr>inv_id = ''inv_2000'', userId = JStr ''user_1000'', amount = NaN,
            lockPeriod = Fin 12, compoundType = JStr ''monthly'', apy = Fin (36 / 35),
            transactionHash = JStr ''0xabc'', startDate = 2000, endDate = 31104002000,
            status = ''active'', totalEarned = Fin 0, weeklyEarnings = []\<rparr>
          NaN),
        Stored (demo_db\<lparr>users :=
          [demo_user
             \<lparr>balance := NaN,
              investments :=
                [demo_investment,
                 \<lparr>inv_id = ''inv_2000'', userId = JStr ''user_1000'', amount = NaN,
                   lockPeriod = Fin 12, compoundType = JStr ''monthly'', apy = Fin (36 / 35),
                   transactionHash = JStr ''0xabc'', startDate = 2000, endDate = 31104002000,
                   status = ''active'', totalEarned = Fin 0, weeklyEarnings = []\<rparr>],
              transactions :=
                [\<lparr>tx_id = ''tx_2000'', tx_type = ''deposit'', tx_amount = NaN,
                   tx_timestamp = 2000, tx_hash = JStr ''0xabc''\<rparr>]\<rparr>]\<rparr>))
   \<and> investC 2000
       (invest_body (JStr ''user_1000'') (JStr ''abc'') (JNum (Fin 12)) (JStr ''monthly'')
          (JStr ''0xabc''))
       [demo_mem_user]
     = (Inr (\<lparr>m_inv_id = ''inv_2000'', m_userId = JStr ''user_1000'', m_amount = NaN,
              m_lockPeriod = Fin 12, m_compoundType = JStr ''monthly'', m_apy = Fin (36 / 35),
              m_transactionHash = JStr ''0xabc'', m_startDate = 2000,
              m_status = ''active''\<rparr>, NaN),
        [demo_mem_user
           \<lparr>m_balance := NaN,
            m_investments :=
              [\<lparr>m_inv_id = ''inv_2000'', m_userId = JStr ''user_1000'', m_amount = NaN,
                 m_lockPeriod = Fin 12, m_compoundType = JStr ''monthly'', m_apy = Fin (36 / 35),
                 m_transactionHash = JStr ''0xabc'', m_startDate = 2000,
                 m_status = ''active''\<rparr>]\<rparr>])
   \<and> calc ''abc'' ''12'' ''monthly'' = Inl InvalidAmount"
proof -
  have pf: "parseFloat (JStr ''abc'') = NaN" by code_simp
  have dec: "decimal 2000 = ''2000''" by code_simp
  have ap: "apyFromTerm (Fin 12) = Fin (36 / 35)" by (simp add: apyFromTerm_Fin apy_curve_def)
  have pa: "calc ''abc'' ''12'' ''monthly'' = Inl InvalidAmount" by code_simp
  have a: "investA demo_env
       (invest_body (JStr ''user_1000'') (JStr ''abc'') (JNum (Fin 12)) (JStr ''monthly'')
          (JStr ''0xabc''))
       (Stored demo_db)
     = (Inr (Invested
          \<lparr>inv_id = ''inv_2000'', userId = JStr ''user_1000'', amount = NaN,
            lockPeriod = Fin 12, compoundType = JStr ''monthly'', apy = Fin (36 / 35),
            transactionHash = JStr ''0xabc'', startDate = 2000, endDate = 31104002000,
            status = ''active'', totalEarned = Fin 0, weeklyEarnings = []\<rparr>
          NaN),
        Stored (demo_db\<lparr>users :=
          [demo_user
             \<lparr>balance := NaN,
              investments :=
                [demo_investment,
                 \<lparr>inv_id = ''inv_2000'', userId = JStr ''user_1000'', amount = NaN,
                   lockPeriod = Fin 12, compoundType = JStr ''monthly'', apy = Fin (36 / 35),
                   transactionHash = JStr ''0xabc'', startDate = 2000, endDate = 31104002000,
                   status = ''active'', totalEarned = Fin 0, weeklyEarnings = []\<rparr>],
              transactions :=
                [\<lparr>tx_id = ''tx_2000'', tx_type = ''deposit'', tx_amount = NaN,
                   tx_timestamp = 2000, tx_hash = JStr ''0xabc''\<rparr>]\<rparr>]\<rparr>))"
    using pf by (simp add: investA_def invest_def invest_body_def readDatabaseA_def demo_db_def demo_user_def
        demo_env_def strict_eq_def js_gt_def ap dec trunc_def writeDatabase_def Let_def
       )
  have c: "investC 2000
       (invest_body (JStr ''user_1000'') (JStr ''abc'') (JNum (Fin 12)) (JStr ''monthly'')
          (JStr ''0xabc''))
       [demo_mem_user]
     = (Inr (\<lparr>m_inv_id = ''inv_2000'', m_userId = JStr ''user_1000'', m_amount = NaN,
              m_lockPeriod = Fin 12, m_compoundType = JStr ''monthly'', m_apy = Fin (36 / 35),
              m_transactionHash = JStr ''0xabc'', m_startDate = 2000,
              m_status = ''active''\<rparr>, NaN),
        [demo_mem_user
           \<lparr>m_balance := NaN,
            m_investments :=
              [\<lparr>m_inv_id = ''inv_2000'', m_userId = JStr ''user_1000'', m_amount = NaN,
                 m_lockPeriod = Fin 12, m_compoundType = JStr ''monthly'', m_apy = Fin (36 / 35),
                 m_transactionHash = JStr ''0xabc'', m_startDate = 2000,
                 m_status = ''active''\<rparr>]\<rparr>])"
    using pf by (simp add: investC_def invest_body_def demo_mem_user_def
        strict_eq_def js_gt_def ap dec trunc_def Let_def)
  show ?thesis using pf a c pa by blast
qed

text \<open>The answer to the amount \<open>"abc"\<close> is not the rejection the claim asks for.\<close>

theorem invest_accepts_NaN_witness:
  "fst (investA demo_env
       (invest_body (JStr ''user_1000'') (JStr ''abc'') (JNum (Fin 12)) (JStr ''monthly'')
          (JStr ''0xabc''))
       (Stored demo_db)) \<noteq> Inl InvalidAmount
   \<and> fst (investC 2000
       (invest_body (JStr ''user_1000'') (JStr ''abc'') (JNum (Fin 12)) (JStr ''monthly'')
          (JStr ''0xabc''))
       [demo_mem_user]) \<noteq> Inl InvalidAmount"
  using invest_accepts_NaN by simp

lemma find_modify_first:
  "find P xs = Some u \<Longrightarrow> P (g u) \<Longrightarrow> find P (modify_first P g xs) = Some (g u)"
  by (induction xs) (auto split: if_splits)

lemma find_Some_holds: "find P xs = Some u \<Longrightarrow> P u"
  by (induction xs) (auto split: if_splits)

lemma map_modify_first:
  "(\<And>x. h (g x) = h x) \<Longrightarrow> map h (modify_first P g xs) = map h xs"
  by (induction xs) auto

lemma invest_unfold:
  "invest rd curve e b f =
     (if fields_missing b then (Inl MissingFields, f)
      else case find (owner b) (users (fst (rd e f))) of
        None \<Rightarrow> (Inl UserNotFound, snd (rd e f))
      | Some u \<Rightarrow>
          if amount_rejected b then (Inl InvalidAmount, snd (rd e f))
          else case end_date e b of
            None \<Rightarrow> (Inl Uncaught, snd (rd e f))
          | Some ends \<Rightarrow>
              if disk_ok e then
                (Inr (Invested (new_investment curve e b ends)
                        (js_add (balance u) (parseFloat (req_amount b)))),
                 Stored ((fst (rd e f))\<lparr>users :=
                   modify_first (owner b)
                     (credited e b (new_investment curve e b ends)
                        (js_add (balance u) (parseFloat (req_amount b))))
                     (users (fst (rd e f)))\<rparr>))
              else (Inl WriteFailed, snd (rd e f)))"
  unfolding invest_def fields_missing_def amount_rejected_def end_date_def new_investment_def
    credited_def owner_def writeDatabase_def Let_def
  by (simp split: prod.split option.split)

lemma investC_unfold:
  "investC t b us =
     (if fields_missing b then (Inl MissingFields, us)
      else case find (mem_owner b) us of
        None \<Rightarrow> (Inl UserNotFound, us)
      | Some u \<Rightarrow>
          if amount_rejected b then (Inl InvalidAmount, us)
          else
            (Inr (mem_investment_of t b, js_add (m_balance u) (parseFloat (req_amount b))),
             modify_first (mem_owner b)
               (mem_credited (mem_investment_of t b)
                  (js_add (m_balance u) (parseFloat (req_amount b))))
               us))"
  unfolding investC_def fields_missing_def amount_rejected_def mem_investment_of_def
    mem_credited_def mem_owner_def Let_def
  by (simp split: option.split)

lemma invest_success:
  assumes "invest rd curve e b f = (Inr (Invested iv bal), f')"
  shows "lockPeriod iv = parseInt (req_lockPeriod b)
     \<and> apy iv = curve (toNumber (req_lockPeriod b))
     \<and> (\<exists>db u. f' = Stored db \<and> find (owner b) (users db) = Some u
          \<and> investments u \<noteq> [] \<and> last (investments u) = iv)"
proof -
  from assms obtain u0 where u0: "find (owner b) (users (fst (rd e f))) = Some u0"
    by (auto simp: invest_unfold split: if_splits option.splits)
  from assms u0 obtain ends where e: "end_date e b = Some ends"
    by (auto simp: invest_unfold split: if_splits option.splits)
  from assms u0 e have iv: "iv = new_investment curve e b ends"
    and f': "f' = Stored ((fst (rd e f))\<lparr>users :=
        modify_first (owner b) (credited e b iv bal) (users (fst (rd e f)))\<rparr>)"
    by (auto simp: invest_unfold split: if_splits)
  have "owner b (credited e b iv bal u0)"
    using find_Some_holds [OF u0] by (simp add: owner_def credited_def)
  with u0 have "find (owner b) (modify_first (owner b) (credited e b iv bal) (users (fst (rd e f))))
      = Some (credited e b iv bal u0)"
    by (rule find_modify_first)
  then show ?thesis using iv f' by (simp add: new_investment_def credited_def)
qed

lemma investC_success:
  assumes "investC t b us = (Inr (iv, bal), us')"
  shows "m_lockPeriod iv = parseInt (req_lockPeriod b)
     \<and> m_apy iv = apyFromTerm (toNumber (req_lockPeriod b))
     \<and> (\<exists>u. find (mem_owner b) us' = Some u
          \<and> m_investments u \<noteq> [] \<and> last (m_investments u) = iv)"
proof -
  from assms obtain u0 where u0: "find (mem_owner b) us = Some u0"
    by (auto simp: investC_unfold split: if_splits option.splits)
  from assms u0 have iv: "iv = mem_investment_of t b"
    and us': "us' = modify_first (mem_owner b) (mem_credited iv bal) us"
    by (auto simp: investC_unfold split: if_splits)
  have "mem_owner b (mem_credited iv bal u0)"
    using find_Some_holds [OF u0] by (simp add: mem_owner_def mem_credited_def)
  with u0 have "find (mem_owner b) (modify_first (mem_owner b) (mem_credited iv bal) us)
      = Some (mem_credited iv bal u0)"
    by (rule find_modify_first)
  then show ?thesis using iv us' by (simp add: mem_investment_of_def mem_credited_def)
qed

text \<open>
  The amount gate of the servers on each kind of number: the bounds 500 and 1,000,000 are
  inclusive, both infinities are rejected, and \<open>NaN\<close> passes.
\<close>

lemma amount_gate:
  "parseFloat (req_amount b) = Fin p \<Longrightarrow> amount_rejected b \<longleftrightarrow> p < 500 \<or> 1000000 < p"
  "parseFloat (req_amount b) = PosInf \<Longrightarrow> amount_rejected b"
  "parseFloat (req_amount b) = NegInf \<Longrightarrow> amount_rejected b"
  "parseFloat (req_amount b) = NaN \<Longrightarrow> \<not> amount_rejected b"
  by (simp_all add: amount_rejected_def js_gt_def)

lemma invest_fails_iff:
  "(\<exists>err. fst (invest rd curve e b f) = Inl err) \<longleftrightarrow>
     (fields_missing b \<or> find (owner b) (users (fst (rd e f))) = None
      \<or> amount_rejected b \<or> end_date e b = None \<or> \<not> disk_ok e)"
  by (cases "find (owner b) (users (fst (rd e f)))"; cases "end_date e b")
    (simp_all add: invest_unfold)

lemma investC_fails_iff:
  "(\<exists>err. fst (investC t b us) = Inl err) \<longleftrightarrow>
     (fields_missing b \<or> find (mem_owner b) us = None \<or> amount_rejected b)"
  by (cases "find (mem_owner b) us") (simp_all add: investC_unfold)

lemma calculate_fails_iff:
  "(\<exists>err. calculate b = Inl err) \<longleftrightarrow>
     (\<not> truthy (req_amount b) \<or> \<not> truthy (req_lockPeriod b) \<or> amount_rejected b)"
  by (auto simp add: calculate_def Let_def amount_rejected_def)

lemma falsy_term:
  "\<not> truthy (req_lockPeriod b) \<Longrightarrow>
     calculate b = Inl MissingFields \<and> investC t b us = (Inl MissingFields, us)
     \<and> invest rd curve e b f = (Inl MissingFields, f)"
  by (simp add: calculate_def investC_unfold invest_unfold fields_missing_def)

lemma demo_request_fields:
  "req_userId (demo_request l) = JStr ''user_1000''"
  "req_amount (demo_request l) = JNum (Fin 1000)"
  "req_lockPeriod (demo_request l) = l"
  "req_compoundType (demo_request l) = JStr ''monthly''"
  "req_transactionHash (demo_request l) = JStr ''0xabc''"
  by (simp_all add: demo_request_def invest_body_def)

lemma demo_request_gate:
  "\<not> amount_rejected (demo_request l)" "fields_missing (demo_request l) = (\<not> truthy l)"
  by (simp_all add: amount_rejected_def fields_missing_def demo_request_fields js_gt_def)

lemma demo_owner:
  "find (owner (demo_request l)) (users demo_db) = Some demo_user"
  "find (mem_owner (demo_request l)) [demo_mem_user] = Some demo_mem_user"
  by (simp_all add: owner_def mem_owner_def demo_request_fields demo_db_def demo_user_def
      demo_mem_user_def strict_eq_def)

lemma decimal_2000: "decimal 2000 = ''2000''"
  by code_simp

lemma invest_demo_36:
  "invest rd curve demo_env (demo_request (JNum (Fin 36))) (Stored demo_db)
     = (Inr (Invested
          \<lparr>inv_id = ''inv_2000'', userId = JStr ''user_1000'', amount = Fin 1000,
            lockPeriod = Fin 36, compoundType = JStr ''monthly'', apy = curve (Fin 36),
            transactionHash = JStr ''0xabc'', startDate = 2000, endDate = 93312002000,
            status = ''active'', totalEarned = Fin 0, weeklyEarnings = []\<rparr>
          (Fin 2000)),
        Stored (demo_db\<lparr>users :=
          [demo_user
             \<lparr>balance := Fin 2000,
              investments :=
                [demo_investment,
                 \<lparr>inv_id = ''inv_2000'', userId = JStr ''user_1000'', amount = Fin 1000,
                   lockPeriod = Fin 36, compoundType = JStr ''monthly'', apy = curve (Fin 36),
                   transactionHash = JStr ''0xabc'', startDate = 2000, endDate = 93312002000,
                   status = ''active'', totalEarned = Fin 0, weeklyEarnings = []\<rparr>],
              transactions :=
                [\<lparr>tx_id = ''tx_2000'', tx_type = ''deposit'', tx_amount = Fin 1000,
                   tx_timestamp = 2000, tx_hash = JStr ''0xabc''\<rparr>]\<rparr>]\<rparr>))"
  if "rd demo_env (Stored demo_db) = (demo_db, Stored demo_db)"
proof -
  have ed: "end_date demo_env (demo_request (JNum (Fin 36))) = Some 93312002000"
    by (simp add: end_date_def demo_request_fields demo_env_def trunc_def)
  have u: "balance demo_user = Fin 1000" "investments demo_user = [demo_investment]"
    "transactions demo_user = []" "owner (demo_request (JNum (Fin 36))) demo_user"
    "users demo_db = [demo_user]" "disk_ok demo_env" "now demo_env = 2000"
    using find_Some_holds [OF demo_owner(1)]
    by (simp_all add: demo_user_def demo_db_def demo_env_def)
  show ?thesis
    by (simp add: invest_unfold that demo_request_gate demo_owner ed u new_investment_def
        credited_def demo_request_fields decimal_2000 trunc_def)
qed

lemma read_demo:
  "readDatabaseA demo_env (Stored demo_db) = (demo_db, Stored demo_db)"
  "readDatabaseB demo_env (Stored demo_db) = (demo_db, Stored demo_db)"
  by (simp_all add: readDatabaseA_def readDatabaseB_def)

text \<open>
  Claim C6, as amended. The lock term a successful \<open>/api/invest\<close> stores is
  \<open>parseInt\<close> of the submitted term, whatever its range, in the first server of
  \<open>part_003\<close> and in \<open>part_004\<close>; the investment is the last one of the account in the
  store. The range from 3 to 24 is applied inside the curve only: the stored APY is the
  curve at the submitted term, between 0.30 and 2.00 for every numeric term.
\<close>

theorem stored_term:
  "(investA e b f = (Inr (Invested iv bal), f') \<longrightarrow>
      lockPeriod iv = parseInt (req_lockPeriod b)
      \<and> apy iv = apyFromTerm (toNumber (req_lockPeriod b))
      \<and> (\<exists>db u. f' = Stored db \<and> find (owner b) (users db) = Some u
           \<and> investments u \<noteq> [] \<and> last (investments u) = iv))
   \<and> (investC t b us = (Inr (miv, mbal), us') \<longrightarrow>
      m_lockPeriod miv = parseInt (req_lockPeriod b)
      \<and> m_apy miv = apyFromTerm (toNumber (req_lockPeriod b))
      \<and> (\<exists>u. find (mem_owner b) us' = Some u
           \<and> m_investments u \<noteq> [] \<and> last (m_investments u) = miv))
   \<and> (toNumber (req_lockPeriod b) = Fin x \<longrightarrow>
      apyFromTerm (toNumber (req_lockPeriod b)) = Fin (apy_curve x)
      \<and> 30 / 100 \<le> apy_curve x \<and> apy_curve x \<le> 2)"
  using invest_success [of readDatabaseA apyFromTerm e b f iv bal f']
    investC_success [of t b us miv mbal us'] apyFromTerm_Fin [of x] apy_curve_bounds [of x]
  by (simp add: investA_def)

text \<open>A term of 36 months: 36 is stored, with the APY of 24 months.\<close>

theorem stored_term_witness:
  "investA demo_env (demo_request (JNum (Fin 36))) (Stored demo_db)
     = (Inr (Invested
          \<lparr>inv_id = ''inv_2000'', userId = JStr ''user_1000'', amount = Fin 1000,
            lockPeriod = Fin 36, compoundType = JStr ''monthly'', apy = Fin 2,
            transactionHash = JStr ''0xabc'', startDate = 2000, endDate = 93312002000,
            status = ''active'', totalEarned = Fin 0, weeklyEarnings = []\<rparr>
          (Fin 2000)),
        Stored (demo_db\<lparr>users :=
          [demo_user
             \<lparr>balance := Fin 2000,
              investments :=
                [demo_investment,
                 \<lparr>inv_id = ''inv_2000'', userId = JStr ''user_1000'', amount = Fin 1000,
                   lockPeriod = Fin 36, compoundType = JStr ''monthly'', apy = Fin 2,
                   transactionHash = JStr ''0xabc'', startDate = 2000, endDate = 93312002000,
                   status = ''active'', totalEarned = Fin 0, weeklyEarnings = []\<rparr>],
              transactions :=
                [\<lparr>tx_id = ''tx_2000'', tx_type = ''deposit'', tx_amount = Fin 1000,
                   tx_timestamp = 2000, tx_hash = JStr ''0xabc''\<rparr>]\<rparr>]\<rparr>))
   \<and> parseInt (req_lockPeriod (demo_request (JNum (Fin 36)))) = Fin 36
   \<and> toNumber (req_lockPeriod (demo_request (JNum (Fin 36)))) = Fin 36
   \<and> apyFromTerm (toNumber (req_lockPeriod (demo_request (JNum (Fin 36))))) = Fin (apy_curve 36)
   \<and> apy_curve 36 \<le> 2"
proof -
  have c: "apyFromTerm (Fin 36) = Fin 2" by (simp add: apyFromTerm_Fin apy_curve_def)
  note run = invest_demo_36 [where rd = readDatabaseA and curve = apyFromTerm, OF read_demo(1),
      folded investA_def, unfolded c]
  show ?thesis
    using stored_term [of demo_env "demo_request (JNum (Fin 36))" "Stored demo_db" _ _ _
        2000 "[demo_mem_user]" _ _ _ 36, unfolded run]
    by (simp add: run demo_request_fields trunc_def)
qed

text \<open>
  Claim C6 as stated fails: the first server stores the term 36, which is not between 3
  and 24.
\<close>

theorem stored_term_counterexample:
  "fst (investA demo_env (demo_request (JNum (Fin 36))) (Stored demo_db))
     = Inr (Invested
          \<lparr>inv_id = ''inv_2000'', userId = JStr ''user_1000'', amount = Fin 1000,
            lockPeriod = Fin 36, compoundType = JStr ''monthly'', apy = Fin 2,
            transactionHash = JStr ''0xabc'', startDate = 2000, endDate = 93312002000,
            status = ''active'', totalEarned = Fin 0, weeklyEarnings = []\<rparr>
          (Fin 2000))
   \<and> map (map lockPeriod \<circ> investments)
         (users (fst (readDatabaseA demo_env
            (snd (investA demo_env (demo_request (JNum (Fin 36))) (Stored demo_db))))))
       = [[Fin 3, Fin 36]]
   \<and> \<not> ((3 :: real) \<le> 36 \<and> (36 :: real) \<le> 24)"
proof -
  have c: "apyFromTerm (Fin 36) = Fin 2" by (simp add: apyFromTerm_Fin apy_curve_def)
  note run = invest_demo_36 [where rd = readDatabaseA and curve = apyFromTerm, OF read_demo(1),
      folded investA_def, unfolded c]
  show ?thesis
    unfolding run by (simp add: readDatabaseA_def demo_db_def demo_investment_def)
qed

text \<open>
  Claim C7, as amended. The term is tested for presence only. \<open>/api/calculate\<close> fails
  exactly when the amount or the term is falsy or the amount is out of range, and
  \<open>/api/invest\<close> of \<open>part_004\<close> exactly when a field is falsy, the account is unknown or
  the amount is out of range; the file-backed servers fail besides when the term gives
  no valid end date or the store cannot be written. A falsy term (absent, null, false,
  0, \<open>NaN\<close> or the empty string) is answered as a missing field. No other term is
  rejected, and no answer is an invalid-term error.
\<close>

theorem term_tested_for_presence:
  "((\<exists>err. calculate b = Inl err) \<longleftrightarrow>
      (\<not> truthy (req_amount b) \<or> \<not> truthy (req_lockPeriod b) \<or> amount_rejected b))
   \<and> ((\<exists>err. fst (investC t b us) = Inl err) \<longleftrightarrow>
      (fields_missing b \<or> find (mem_owner b) us = None \<or> amount_rejected b))
   \<and> ((\<exists>err. fst (invest rd curve e b f) = Inl err) \<longleftrightarrow>
      (fields_missing b \<or> find (owner b) (users (fst (rd e f))) = None
       \<or> amount_rejected b \<or> end_date e b = None \<or> \<not> disk_ok e))
   \<and> (\<not> truthy (req_lockPeriod b) \<longrightarrow>
      calculate b = Inl MissingFields \<and> investC t b us = (Inl MissingFields, us)
      \<and> invest rd curve e b f = (Inl MissingFields, f))"
  using calculate_fails_iff [of b] investC_fails_iff [of t b us]
    invest_fails_iff [of rd curve e b f] falsy_term [of b t us rd curve e f]
  by blast

text \<open>A term of 0 is answered as a missing field.\<close>

theorem term_tested_for_presence_witness:
  "\<not> truthy (req_lockPeriod (demo_request (JNum (Fin 0))))
   \<and> calculate (demo_request (JNum (Fin 0))) = Inl MissingFields
   \<and> investC 2000 (demo_request (JNum (Fin 0))) [demo_mem_user]
       = (Inl MissingFields, [demo_mem_user])
   \<and> investA demo_env (demo_request (JNum (Fin 0))) (Stored demo_db)
       = (Inl MissingFields, Stored demo_db)"
  using term_tested_for_presence [of "demo_request (JNum (Fin 0))" 2000 "[demo_mem_user]"
      readDatabaseA apyFromTerm demo_env "Stored demo_db"]
  by (simp add: demo_request_fields investA_def)

text \<open>
  Claim C7 as stated fails: the term -5 is projected by \<open>/api/calculate\<close>, and the term 2.5
  is accepted by \<open>/api/invest\<close> of \<open>part_004\<close>, which stores it as 2.
\<close>

theorem term_counterexample:
  "calculate (calc_body (JNum (Fin 1000)) (JNum (Fin (- 5))) (JStr ''simple''))
     = Inr \<lparr>p_apy = Fin 30, p_finalAmount = Fin 875, p_interest = Fin (- 125),
            p_lockPeriod = Fin (- 5)\<rparr>
   \<and> investC 2000 (demo_request (JNum (Fin (5 / 2)))) [demo_mem_user]
     = (Inr (\<lparr>m_inv_id = ''inv_2000'', m_userId = JStr ''user_1000'', m_amount = Fin 1000,
              m_lockPeriod = Fin 2, m_compoundType = JStr ''monthly'', m_apy = Fin (30 / 100),
              m_transactionHash = JStr ''0xabc'', m_startDate = 2000,
              m_status = ''active''\<rparr>, Fin 1000),
        [demo_mem_user
           \<lparr>m_balance := Fin 1000,
            m_investments :=
              [\<lparr>m_inv_id = ''inv_2000'', m_userId = JStr ''user_1000'', m_amount = Fin 1000,
                 m_lockPeriod = Fin 2, m_compoundType = JStr ''monthly'',
                 m_apy = Fin (30 / 100), m_transactionHash = JStr ''0xabc'',
                 m_startDate = 2000, m_status = ''active''\<rparr>]\<rparr>])"
proof -
  have a: "calculate (calc_body (JNum (Fin 1000)) (JNum (Fin (- 5))) (JStr ''simple''))
     = Inr \<lparr>p_apy = Fin 30, p_finalAmount = Fin 875, p_interest = Fin (- 125),
            p_lockPeriod = Fin (- 5)\<rparr>"
    by (simp add: calculate_def calc_body_def js_gt_def trunc_def strict_eq_def apyFromTerm_Fin
        apy_curve_def js_sub_def)
  have u: "m_balance demo_mem_user = Fin 0" "m_investments demo_mem_user = []"
    by (simp_all add: demo_mem_user_def)
  have c: "investC 2000 (demo_request (JNum (Fin (5 / 2)))) [demo_mem_user]
     = (Inr (\<lparr>m_inv_id = ''inv_2000'', m_userId = JStr ''user_1000'', m_amount = Fin 1000,
              m_lockPeriod = Fin 2, m_compoundType = JStr ''monthly'', m_apy = Fin (30 / 100),
              m_transactionHash = JStr ''0xabc'', m_startDate = 2000,
              m_status = ''active''\<rparr>, Fin 1000),
        [demo_mem_user
           \<lparr>m_balance := Fin 1000,
            m_investments :=
              [\<lparr>m_inv_id = ''inv_2000'', m_userId = JStr ''user_1000'', m_amount = Fin 1000,
                 m_lockPeriod = Fin 2, m_compoundType = JStr ''monthly'',
                 m_apy = Fin (30 / 100), m_transactionHash = JStr ''0xabc'',
                 m_startDate = 2000, m_status = ''active''\<rparr>]\<rparr>])"
    using find_Some_holds [OF demo_owner(2), of "JNum (Fin (5 / 2))"]
    by (simp add: investC_unfold demo_request_gate demo_owner u mem_investment_of_def
        mem_credited_def demo_request_fields decimal_2000 trunc_def apyFromTerm_Fin apy_curve_def)
  show ?thesis using a c by blast
qed

section \<open>The APY of a stored investment\<close>

text \<open>
  What holds of the round trip: in the first server the investment a successful
  \<open>/api/invest\<close> stores is returned by \<open>/api/user\<close> with the APY of the curve at the
  submitted term; a tick and a login leave the APY of every investment as it is, and a
  further investment adds its own after them.
\<close>

lemma find_cong_pred: "(\<And>x. P x = Q x) \<Longrightarrow> find P xs = find Q xs"
  by (induction xs) auto

lemma round_trip_first_server:
  assumes "investA e b f = (Inr (Invested iv bal), f')" and "req_userId b = JStr uid"
  shows "investments_of (fst (getUserA e' uid f')) \<noteq> []
     \<and> apy (last (investments_of (fst (getUserA e' uid f'))))
         = apyFromTerm (toNumber (req_lockPeriod b))"
proof -
  from invest_success [OF assms(1) [unfolded investA_def]]
  obtain db u where s: "f' = Stored db" "find (owner b) (users db) = Some u"
    "investments u \<noteq> []" "last (investments u) = iv"
    "apy iv = apyFromTerm (toNumber (req_lockPeriod b))"
    by blast
  have "find (\<lambda>u. user_id u = uid) (users db) = find (owner b) (users db)"
    by (rule find_cong_pred) (auto simp: owner_def strict_eq_def assms(2))
  then show ?thesis
    using s by (simp add: getUserA_def getUser_def readDatabaseA_def Let_def)
qed

lemma stored_apy_kept:
  "map apy (investments (accrue_user daily t u)) = map apy (investments u)"
  "map apy (investments (credited e b iv bal u)) = map apy (investments u) @ [apy iv]"
  "investments (u\<lparr>lastLogin := t\<rparr>) = investments u"
  by (simp_all add: accrue_user_eq accrued_def credited_def comp_def)

text \<open>
  Claim C4 fails on the second server of \<open>part_003\<close>. Its \<open>/api/invest\<close> computes the APY
  by a line of its own, which does not clamp the term: an investment over 36 months is
  stored, and returned by \<open>/api/user\<close>, with the APY 104/35 (297 per cent), where the
  curve gives 2.00.
\<close>

theorem unclamped_apy:
  "fst (investB demo_env (demo_request (JNum (Fin 36))) (Stored demo_db))
     = Inr (Invested
          \<lparr>inv_id = ''inv_2000'', userId = JStr ''user_1000'', amount = Fin 1000,
            lockPeriod = Fin 36, compoundType = JStr ''monthly'', apy = Fin (104 / 35),
            transactionHash = JStr ''0xabc'', startDate = 2000, endDate = 93312002000,
            status = ''active'', totalEarned = Fin 0, weeklyEarnings = []\<rparr>
          (Fin 2000))
   \<and> map apy (investments_of (fst (getUserB demo_env ''user_1000''
         (snd (investB demo_env (demo_request (JNum (Fin 36))) (Stored demo_db))))))
       = [Fin (30 / 100), Fin (104 / 35)]
   \<and> apyFromTerm (Fin 36) = Fin 2"
proof -
  have c: "apyInline (Fin 36) = Fin (104 / 35)" by (simp add: apyInline_def js_sub_def)
  note run = invest_demo_36 [where rd = readDatabaseB and curve = apyInline, OF read_demo(2),
      folded investB_def, unfolded c]
  show ?thesis
    unfolding run
    by (simp add: getUserB_def getUser_def readDatabaseB_def Let_def apyFromTerm_Fin
        apy_curve_def demo_db_def demo_user_def demo_investment_def)
qed

text \<open>The APY returned for the term 36 is not the one of the curve.\<close>

theorem unclamped_apy_witness:
  "map apy (investments_of (fst (getUserB demo_env ''user_1000''
         (snd (investB demo_env (demo_request (JNum (Fin 36))) (Stored demo_db))))))
     \<noteq> [Fin (30 / 100), apyFromTerm (Fin 36)]"
  using unclamped_apy by simp

section \<open>Registration and the wallet address\<close>

text \<open>
  Claim C8 fails on \<open>script.js\<close>. Its \<open>registerUser\<close> keeps the submitted password as it
  is, in the list of accounts and in the current account, under a comment saying that it
  should be hashed; \<open>/api/register\<close> of the server stores the bcrypt hash.
\<close>

theorem registerUser_keeps_password:
  "registerUser 2000 ''new@yieldfarm.com'' ''hunter2''
       (\<lparr>mockUsers = None, currentUser = None\<rparr> :: investment localStorage)
     = (Inr (Registered ''user_2000'' (JStr ''new@yieldfarm.com'') (Fin 0)),
        \<lparr>mockUsers =
           Some [\<lparr>mu_id = ''user_1'', mu_email = ''demo@yieldfarm.com'',
                   mu_password = ''password123'', mu_createdAt = None,
                   mu_balance = Fin 15000, mu_totalEarnings = Fin 1250, mu_investments = []\<rparr>,
                 \<lparr>mu_id = ''user_2000'', mu_email = ''new@yieldfarm.com'',
                   mu_password = ''hunter2'', mu_createdAt = Some 2000,
                   mu_balance = Fin 0, mu_totalEarnings = Fin 0, mu_investments = []\<rparr>],
         currentUser =
           Some \<lparr>mu_id = ''user_2000'', mu_email = ''new@yieldfarm.com'',
                  mu_password = ''hunter2'', mu_createdAt = Some 2000,
                  mu_balance = Fin 0, mu_totalEarnings = Fin 0, mu_investments = []\<rparr>\<rparr>)
   \<and> registerA demo_env (auth_body (JStr ''new@yieldfarm.com'') (JStr ''hunter2''))
       (Stored demo_db)
     = (Inr (Registered ''user_2000'' (JStr ''new@yieldfarm.com'') (Fin 0)),
        Stored (demo_db\<lparr>users :=
          [demo_user,
           \<lparr>user_id = ''user_2000'', email = JStr ''new@yieldfarm.com'',
             password = Bcrypt ''hunter2'', createdAt = 2000, lastLogin = 2000,
             balance = Fin 0, totalEarnings = Fin 0, investments = [], isActive = True,
             transactions = []\<rparr>]\<rparr>))"
proof -
  have s: "registerUser 2000 ''new@yieldfarm.com'' ''hunter2''
       (\<lparr>mockUsers = None, currentUser = None\<rparr> :: investment localStorage)
     = (Inr (Registered ''user_2000'' (JStr ''new@yieldfarm.com'') (Fin 0)),
        \<lparr>mockUsers =
           Some [\<lparr>mu_id = ''user_1'', mu_email = ''demo@yieldfarm.com'',
                   mu_password = ''password123'', mu_createdAt = None,
                   mu_balance = Fin 15000, mu_totalEarnings = Fin 1250, mu_investments = []\<rparr>,
                 \<lparr>mu_id = ''user_2000'', mu_email = ''new@yieldfarm.com'',
                   mu_password = ''hunter2'', mu_createdAt = Some 2000,
                   mu_balance = Fin 0, mu_totalEarnings = Fin 0, mu_investments = []\<rparr>],
         currentUser =
           Some \<lparr>mu_id = ''user_2000'', mu_email = ''new@yieldfarm.com'',
                  mu_password = ''hunter2'', mu_createdAt = Some 2000,
                  mu_balance = Fin 0, mu_totalEarnings = Fin 0, mu_investments = []\<rparr>\<rparr>)"
    by (simp add: registerUser_def initMockUsers_def Let_def decimal_2000)
  have u: "users demo_db = [demo_user]" "email demo_user = JStr ''a@b.c''"
    "disk_ok demo_env" "now demo_env = 2000"
    by (simp_all add: demo_db_def demo_user_def demo_env_def)
  have a: "registerA demo_env (auth_body (JStr ''new@yieldfarm.com'') (JStr ''hunter2''))
       (Stored demo_db)
     = (Inr (Registered ''user_2000'' (JStr ''new@yieldfarm.com'') (Fin 0)),
        Stored (demo_db\<lparr>users :=
          [demo_user,
           \<lparr>user_id = ''user_2000'', email = JStr ''new@yieldfarm.com'',
             password = Bcrypt ''hunter2'', createdAt = 2000, lastLogin = 2000,
             balance = Fin 0, totalEarnings = Fin 0, investments = [], isActive = True,
             transactions = []\<rparr>]\<rparr>))"
    by (simp add: registerA_def register_def auth_body_def read_demo u strict_eq_def
        writeDatabase_def Let_def decimal_2000)
  show ?thesis using s a by blast
qed

text \<open>The credential \<open>script.js\<close> stores is the password itself.\<close>

theorem registerUser_keeps_password_witness:
  "map mu_password
     (case mockUsers (snd (registerUser 2000 ''new@yieldfarm.com'' ''hunter2''
          (\<lparr>mockUsers = None, currentUser = None\<rparr> :: investment localStorage))) of
        None \<Rightarrow> [] | Some us \<Rightarrow> us)
     = [''password123'', ''hunter2'']"
  using registerUser_keeps_password by simp

text \<open>
  Claim C9 fails on the second server of \<open>part_003\<close>. The document its \<open>readDatabase\<close>
  falls back to has no settings, so on an unreadable or corrupt file
  \<open>/api/wallet-address\<close> throws instead of returning the address; the first server
  falls back to a document with the settings and returns it.
\<close>

theorem wallet_address_after_fallback:
  "walletAddressB e Corrupt = (Inl Uncaught, Corrupt)
   \<and> walletAddressB e Missing = (Inl Uncaught, Missing)
   \<and> walletAddressA e Corrupt
       = (Inr (WalletAddress ''0x71C7656EC7ab88b098defB751B7401B5f6d897AB''), Corrupt)
   \<and> fst (walletAddressA e Missing)
       = Inr (WalletAddress ''0x71C7656EC7ab88b098defB751B7401B5f6d897AB'')"
  by (simp add: walletAddressA_def walletAddressB_def walletAddress_def readDatabaseA_def
      readDatabaseB_def initialData_def)

text \<open>No address is returned from a corrupt file.\<close>

theorem wallet_address_after_fallback_witness:
  "fst (walletAddressB demo_env Corrupt)
     \<noteq> Inr (WalletAddress ''0x71C7656EC7ab88b098defB751B7401B5f6d897AB'')"
  using wallet_address_after_fallback [of demo_env] by simp

section \<open>Login\<close>

lemma login_unfold:
  "login rd e b f =
     (if \<not> truthy (req_email b) \<or> \<not> truthy (req_password b) then (Inl MissingFields, f)
      else case find (account b) (users (fst (rd e f))) of
        None \<Rightarrow> (Inl UserNotFound, snd (rd e f))
      | Some u \<Rightarrow>
          if \<not> isActive u then (Inl Deactivated, snd (rd e f))
          else case bcrypt_compare (req_password b) (password u) of
            None \<Rightarrow> (Inl Uncaught, snd (rd e f))
          | Some validPassword \<Rightarrow>
              if \<not> validPassword then (Inl InvalidPassword, snd (rd e f))
              else
                (Inr (LoggedIn (user_id u) (email u) (balance u) (totalEarnings u)
                        (investments u)),
                 if disk_ok e then
                   Stored ((fst (rd e f))\<lparr>users :=
                     modify_first (account b) (\<lambda>u. u\<lparr>lastLogin := now e\<rparr>)
                       (users (fst (rd e f)))\<rparr>)
                 else snd (rd e f)))"
  unfolding login_def account_def writeDatabase_def Let_def
  by (simp split: prod.split option.split)

lemma login_failure:
  "login rd e b f = (Inl err, f') \<Longrightarrow> f' = f \<or> f' = snd (rd e f)"
  by (auto simp: login_unfold split: if_splits option.splits)

lemma lastLogin_frame:
  "map balance (modify_first P (\<lambda>u. u\<lparr>lastLogin := t\<rparr>) us) = map balance us"
  "map totalEarnings (modify_first P (\<lambda>u. u\<lparr>lastLogin := t\<rparr>) us) = map totalEarnings us"
  "map investments (modify_first P (\<lambda>u. u\<lparr>lastLogin := t\<rparr>) us) = map investments us"
  by (simp_all add: map_modify_first)

text \<open>
  Claim C10. A successful login, of either server of \<open>part_003\<close>, happens on a stored
  document only; it answers with the account the email names and writes the whole
  document back with that account's \<open>lastLogin\<close> set to the time of the request (the
  file keeps its content if the write fails, which the handler ignores). The balances,
  the total earnings and the investments of all accounts are as before. A failed login
  leaves the file of the second server as it was; in the first server it leaves the
  document every handler reads as it was, and the file too unless the file was missing,
  which \<open>readDatabase\<close> then has created with the empty default document.
\<close>

theorem login_effect:
  "(loginA e b f = (Inr r, f') \<or> loginB e b f = (Inr r, f') \<longrightarrow>
      (\<exists>db u. f = Stored db \<and> find (account b) (users db) = Some u
         \<and> r = LoggedIn (user_id u) (email u) (balance u) (totalEarnings u) (investments u)
         \<and> f' = (if disk_ok e then
                   Stored (db\<lparr>users :=
                     modify_first (account b) (\<lambda>u. u\<lparr>lastLogin := now e\<rparr>) (users db)\<rparr>)
                 else f)
         \<and> find (account b)
              (modify_first (account b) (\<lambda>u. u\<lparr>lastLogin := now e\<rparr>) (users db))
            = Some (u\<lparr>lastLogin := now e\<rparr>)
         \<and> map balance (modify_first (account b) (\<lambda>u. u\<lparr>lastLogin := now e\<rparr>) (users db))
            = map balance (users db)
         \<and> map totalEarnings
              (modify_first (account b) (\<lambda>u. u\<lparr>lastLogin := now e\<rparr>) (users db))
            = map totalEarnings (users db)
         \<and> map investments
              (modify_first (account b) (\<lambda>u. u\<lparr>lastLogin := now e\<rparr>) (users db))
            = map investments (users db)))
   \<and> (loginB e b f = (Inl err, f') \<longrightarrow> f' = f)
   \<and> (loginA e b f = (Inl err, f') \<longrightarrow>
        fst (readDatabaseA e' f') = fst (readDatabaseA e' f) \<and> (f \<noteq> Missing \<longrightarrow> f' = f))"
proof -
  have ok: "\<exists>db u. f = Stored db \<and> find (account b) (users db) = Some u
         \<and> r = LoggedIn (user_id u) (email u) (balance u) (totalEarnings u) (investments u)
         \<and> f' = (if disk_ok e then
                   Stored (db\<lparr>users :=
                     modify_first (account b) (\<lambda>u. u\<lparr>lastLogin := now e\<rparr>) (users db)\<rparr>)
                 else f)
         \<and> find (account b)
              (modify_first (account b) (\<lambda>u. u\<lparr>lastLogin := now e\<rparr>) (users db))
            = Some (u\<lparr>lastLogin := now e\<rparr>)"
    if run: "login rd e b f = (Inr r, f')" and rd: "rd = readDatabaseA \<or> rd = readDatabaseB"
    for rd
  proof -
    from run obtain u where u: "find (account b) (users (fst (rd e f))) = Some u"
      by (auto simp: login_unfold split: if_splits option.splits)
    then have ne: "users (fst (rd e f)) \<noteq> []" by auto
    then obtain db where f: "f = Stored db"
      using rd by (cases f) (auto simp: readDatabaseA_def readDatabaseB_def initialData_def)
    then have r: "fst (rd e f) = db" "snd (rd e f) = f"
      using rd by (auto simp: readDatabaseA_def readDatabaseB_def)
    have "account b (u\<lparr>lastLogin := now e\<rparr>)"
      using find_Some_holds [OF u] by (simp add: account_def)
    with u have m: "find (account b)
        (modify_first (account b) (\<lambda>u. u\<lparr>lastLogin := now e\<rparr>) (users (fst (rd e f))))
        = Some (u\<lparr>lastLogin := now e\<rparr>)"
      by (rule find_modify_first)
    from run u have "r = LoggedIn (user_id u) (email u) (balance u) (totalEarnings u) (investments u)"
      and "f' = (if disk_ok e then
                   Stored (db\<lparr>users :=
                     modify_first (account b) (\<lambda>u. u\<lparr>lastLogin := now e\<rparr>) (users db)\<rparr>)
                 else f)"
      by (auto simp: login_unfold r split: if_splits option.splits)
    with u m f show ?thesis unfolding r by blast
  qed
  have failB: "f' = f" if "loginB e b f = (Inl err, f')"
    using login_failure [OF that [unfolded loginB_def]]
    by (cases f) (auto simp: readDatabaseB_def)
  have failA: "fst (readDatabaseA e' f') = fst (readDatabaseA e' f) \<and> (f \<noteq> Missing \<longrightarrow> f' = f)"
    if "loginA e b f = (Inl err, f')"
    using login_failure [OF that [unfolded loginA_def]]
    by (cases f) (auto simp: readDatabaseA_def)
  show ?thesis
    using ok [of readDatabaseA] ok [of readDatabaseB] failA failB
    by (auto simp: loginA_def loginB_def lastLogin_frame)
qed

lemma login_demo:
  "login rd demo_env (auth_body (JStr ''a@b.c'') (JStr p)) (Stored demo_db)
     = (if p = ''secret''
        then (Inr (LoggedIn ''user_1000'' (JStr ''a@b.c'') (Fin 1000) (Fin 0) [demo_investment]),
              Stored (demo_db\<lparr>users := [demo_user\<lparr>lastLogin := 2000\<rparr>]\<rparr>))
        else (Inl InvalidPassword, Stored demo_db))"
  if "rd demo_env (Stored demo_db) = (demo_db, Stored demo_db)" and "p \<noteq> []"
proof -
  have u: "users demo_db = [demo_user]" "email demo_user = JStr ''a@b.c''"
    "password demo_user = Bcrypt ''secret''" "isActive demo_user" "user_id demo_user = ''user_1000''"
    "balance demo_user = Fin 1000" "totalEarnings demo_user = Fin 0"
    "investments demo_user = [demo_investment]" "disk_ok demo_env" "now demo_env = 2000"
    by (simp_all add: demo_db_def demo_user_def demo_env_def)
  show ?thesis
    by (simp add: login_unfold that auth_body_def account_def strict_eq_def u)
qed

text \<open>
  A login with the right password moves \<open>lastLogin\<close> from 1000 to 2000 in the file; one
  with a wrong password leaves the file; one on a missing file finds no account, and the
  first server has created the default document.
\<close>

theorem login_effect_witness:
  "loginA demo_env (auth_body (JStr ''a@b.c'') (JStr ''secret'')) (Stored demo_db)
     = (Inr (LoggedIn ''user_1000'' (JStr ''a@b.c'') (Fin 1000) (Fin 0) [demo_investment]),
        Stored (demo_db\<lparr>users := [demo_user\<lparr>lastLogin := 2000\<rparr>]\<rparr>))
   \<and> lastLogin demo_user = 1000
   \<and> loginB demo_env (auth_body (JStr ''a@b.c'') (JStr ''wrong'')) (Stored demo_db)
     = (Inl InvalidPassword, Stored demo_db)
   \<and> loginA demo_env (auth_body (JStr ''a@b.c'') (JStr ''wrong'')) (Stored demo_db)
     = (Inl InvalidPassword, Stored demo_db)
   \<and> loginA demo_env (auth_body (JStr ''a@b.c'') (JStr ''secret'')) Missing
     = (Inl UserNotFound, Stored initialData)
   \<and> fst (readDatabaseA demo_env (Stored initialData)) = fst (readDatabaseA demo_env Missing)"
proof -
  note a = login_demo [where rd = readDatabaseA, OF read_demo(1), folded loginA_def]
  note b = login_demo [where rd = readDatabaseB, OF read_demo(2), folded loginB_def]
  have m: "loginA demo_env (auth_body (JStr ''a@b.c'') (JStr ''secret'')) Missing
     = (Inl UserNotFound, Stored initialData)"
    by (simp add: loginA_def login_unfold auth_body_def readDatabaseA_def demo_env_def
        initialData_def)
  show ?thesis
    using login_effect [of demo_env "auth_body (JStr ''a@b.c'') (JStr ''secret'')" "Stored demo_db"
        "LoggedIn ''user_1000'' (JStr ''a@b.c'') (Fin 1000) (Fin 0) [demo_investment]"
        "Stored (demo_db\<lparr>users := [demo_user\<lparr>lastLogin := 2000\<rparr>]\<rparr>)" UserNotFound demo_env]
      login_effect [of demo_env "auth_body (JStr ''a@b.c'') (JStr ''wrong'')" "Stored demo_db"
        "LoggedIn ''user_1000'' (JStr ''a@b.c'') (Fin 1000) (Fin 0) [demo_investment]"
        "Stored demo_db" InvalidPassword demo_env]
      login_effect [of demo_env "auth_body (JStr ''a@b.c'') (JStr ''secret'')" Missing
        "LoggedIn ''user_1000'' (JStr ''a@b.c'') (Fin 1000) (Fin 0) [demo_investment]"
        "Stored initialData" UserNotFound demo_env]
    by (simp add: a b m demo_user_def)
qed

end
